theory Spec2Isabelle
  imports Complex_Main "HOL-Library.AList"
begin

section \<open>Python values and exceptions\<close>

text \<open>
  The harness is two Python scripts, \<^verbatim>\<open>docs/benchmarks/generic_benchmark.py\<close> and
  \<^verbatim>\<open>docs/benchmarks/behavioral_benchmark.py\<close>. Configurations and test definitions
  are documents read by \<^verbatim>\<open>json.load\<close> and \<^verbatim>\<open>yaml.safe_load\<close>: trees of
  mappings, sequences and scalars. A mapping is an association list, in insertion order as
  a Python \<^verbatim>\<open>dict\<close> keeps it; keys are strings, as JSON keys are.

  Numbers that Python holds as floats (scores, rates, averages, elapsed seconds) are
  exact rationals here: the model computes the quotient that Python rounds to the nearest
  double.

  An exception is a value of \<open>py_error\<close>; a function that can raise returns
  \<open>py_error + 'a\<close> with \<open>Inl\<close> for the exception.
\<close>

datatype pyval =
    PNone
  | PBool bool
  | PInt int
  | PFloat rat
  | PStr string
  | PList "pyval list"
  | PDict "(string \<times> pyval) list"

datatype py_error =
    KeyError string
  | IndexError
  | TypeError
  | AttributeError
  | ValueError
  | ReError string
  | YAMLError string
  | JSONDecodeError string
  | OSError string

section \<open>Dotted-path overrides: \<^verbatim>\<open>GenericBenchmark._set_nested_key\<close>\<close>

text \<open>
  \<^verbatim>\<open>
  def _set_nested_key(self, d: dict, key_path: str, value):
      keys = key_path.split('.')
      for key in keys[:-1]:
          d = d.setdefault(key, {})
      d[keys[-1]] = value
  \<close>
  \<open>split_on c s\<close> is \<^verbatim>\<open>s.split(c)\<close> for a one-character separator: every
  occurrence of the separator ends a piece, pieces may be empty, and the result is never
  the empty list.
\<close>

fun split_on :: "char \<Rightarrow> string \<Rightarrow> string list" where
  "split_on c [] = [[]]"
| "split_on c (x # xs) =
     (let r = split_on c xs
      in if x = c then [] # r else (x # hd r) # tl r)"

text \<open>
  \<^verbatim>\<open>d.setdefault(key, default)\<close> returns the value stored under \<open>key\<close>, after
  storing \<open>default\<close> there when the key was absent. The model returns that value together
  with the mapping as it is afterwards. On anything but a mapping the method does not exist
  (\<^verbatim>\<open>AttributeError\<close>).
\<close>

fun setdefault :: "pyval \<Rightarrow> string \<Rightarrow> pyval \<Rightarrow> py_error + (pyval \<times> pyval)" where
  "setdefault (PDict kvs) k dflt =
     (case map_of kvs k of
        Some child \<Rightarrow> Inr (child, PDict kvs)
      | None \<Rightarrow> Inr (dflt, PDict (kvs @ [(k, dflt)])))"
| "setdefault _ k dflt = Inl AttributeError"

text \<open>
  \<^verbatim>\<open>d[key] = value\<close> with a string key: a mapping takes the value (an existing key
  keeps its place, a new one goes last); a sequence, a string or a scalar raises
  \<^verbatim>\<open>TypeError\<close>.
\<close>

fun setitem :: "pyval \<Rightarrow> string \<Rightarrow> pyval \<Rightarrow> py_error + pyval" where
  "setitem (PDict kvs) k v = Inr (PDict (AList.update k v kvs))"
| "setitem _ k v = Inl TypeError"

text \<open>
  The loop walks down one mapping per key and assigns at the last one. Python mutates the
  mappings in place, so the assignment deep in the tree is seen from the root; the model
  rebuilds the path on the way back (\<open>setitem d' k child'\<close> puts the changed child back
  where \<open>setdefault\<close> found or created it). The tree has no sharing: an empty base
  configuration has none. A loaded document can have some (YAML aliases); for that the
  same walk is defined on a store of objects, with the materialiser below.
  \<open>keys[-1]\<close> of an empty list would raise \<^verbatim>\<open>IndexError\<close>; \<open>split_on\<close> never
  returns one.
\<close>

fun set_nested_keys :: "pyval \<Rightarrow> string list \<Rightarrow> pyval \<Rightarrow> py_error + pyval" where
  "set_nested_keys d [] v = Inl IndexError"
| "set_nested_keys d [k] v = setitem d k v"
| "set_nested_keys d (k # ks) v =
     (case setdefault d k (PDict []) of
        Inl e \<Rightarrow> Inl e
      | Inr (child, d') \<Rightarrow>
          (case set_nested_keys child ks v of
             Inl e \<Rightarrow> Inl e
           | Inr child' \<Rightarrow> setitem d' k child'))"

definition set_nested_key :: "pyval \<Rightarrow> string \<Rightarrow> pyval \<Rightarrow> py_error + pyval" where
  "set_nested_key d key_path v = set_nested_keys d (split_on (CHR ''.'') key_path) v"

text \<open>
  The nested mappings \<open>k\<^sub>1 \<rightarrow> k\<^sub>2 \<rightarrow> \<dots> \<rightarrow> k\<^sub>n \<rightarrow> v\<close> the specification speaks of, and the
  dotted path that names them.
\<close>

fun nested_mapping :: "string list \<Rightarrow> pyval \<Rightarrow> pyval" where
  "nested_mapping [] v = v"
| "nested_mapping (k # ks) v = PDict [(k, nested_mapping ks v)]"

fun dotted :: "string list \<Rightarrow> string" where
  "dotted [] = []"
| "dotted [k] = k"
| "dotted (k # ks) = k @ CHR ''.'' # dotted ks"

section \<open>Criterion evaluation: \<^verbatim>\<open>BehavioralTester.check_criterion\<close> and \<^verbatim>\<open>evaluate_test\<close>\<close>

text \<open>
  A behavioural test definition and its success criteria are JSON objects; the model keeps
  the keys the two functions read (\<^verbatim>\<open>id\<close> and \<^verbatim>\<open>name\<close> are \<open>test_id\<close> and
  \<open>test_name\<close> here).
\<close>

record criterion_def =
  criterion :: string
  description :: string
  check_pattern :: string

record behavioral_test =
  test_id :: string
  test_name :: string
  success_criteria :: "criterion_def list"

text \<open>What the scripts print, one constructor per \<^verbatim>\<open>print\<close> call the model keeps.\<close>

datatype message =
    PatternWarning py_error
  | Usage
  | DefinitionNotFound string
  | MissingRequiredField string
  | LoadedTestDefinition pyval
  | LoadedDescription pyval
  | LoadedVariants nat
  | LoadedScenarios nat
  | DefinitionLoadFailed py_error
  | ConfigFileNotFound string
  | Traceback py_error

text \<open>
  \<^verbatim>\<open>
  def check_criterion(self, output, criterion):
      pattern = criterion['check_pattern']
      try:
          match = re.search(pattern, output, re.IGNORECASE | re.DOTALL)
          return match is not None
      except Exception as e:
          print(f"  Warning: Pattern error: {e}")
          return False
  \<close>
  The regular-expression engine is Python's, not the repository's: it is the parameter
  \<open>re_search\<close>, which for a pattern and a text answers \<open>Inr True\<close> (a match object),
  \<open>Inr False\<close> (\<^verbatim>\<open>None\<close>) or \<open>Inl e\<close> (the pattern does not compile and
  \<^verbatim>\<open>re.error\<close> is raised). The \<^verbatim>\<open>except Exception\<close> clause catches whatever the
  search raises, so the function has no exception among its results: it returns the lines
  it printed and its verdict.
\<close>

type_synonym regex_engine = "string \<Rightarrow> string \<Rightarrow> py_error + bool"

definition check_criterion ::
  "regex_engine \<Rightarrow> string \<Rightarrow> criterion_def \<Rightarrow> message list \<times> bool" where
  "check_criterion re_search output c =
     (let pattern = check_pattern c
      in case re_search pattern output of
           Inr match \<Rightarrow> ([], match)
         | Inl e \<Rightarrow> ([PatternWarning e], False))"

text \<open>
  \<^verbatim>\<open>
  def evaluate_test(self, test_def, output):
      results = {
          'test_id': test_def['id'],
          'test_name': test_def['name'],
          'criteria_results': [],
          'passed_criteria': 0,
          'total_criteria': len(test_def['success_criteria']),
          'passed': False,
          'output_length': len(output)
      }
      for criterion in test_def['success_criteria']:
          passed = self.check_criterion(output, criterion)
          results['criteria_results'].append({
              'criterion': criterion['criterion'],
              'description': criterion['description'],
              'passed': passed
          })
          if passed:
              results['passed_criteria'] += 1
      # Test passes if all criteria are met
      results['passed'] = results['passed_criteria'] == results['total_criteria']
      results['score'] = results['passed_criteria'] / results['total_criteria'] if results['total_criteria'] > 0 else 0
      return results
  \<close>
\<close>

record criterion_result =
  cr_criterion :: string
  cr_description :: string
  cr_passed :: bool

record evaluation =
  ev_test_id :: string
  ev_test_name :: string
  criteria_results :: "criterion_result list"
  passed_criteria :: nat
  total_criteria :: nat
  passed :: bool
  output_length :: nat
  score :: rat

text \<open>
  The loop, with the two entries of \<^verbatim>\<open>results\<close> it changes (and the printed lines)
  as its state.
\<close>

fun criteria_loop ::
  "regex_engine \<Rightarrow> string \<Rightarrow> criterion_def list
     \<Rightarrow> message list \<times> criterion_result list \<times> nat
     \<Rightarrow> message list \<times> criterion_result list \<times> nat" where
  "criteria_loop re_search output [] st = st"
| "criteria_loop re_search output (c # cs) (printed, crs, n) =
     (let (w, p) = check_criterion re_search output c;
          crs' = crs @ [\<lparr>cr_criterion = criterion c, cr_description = description c,
                         cr_passed = p\<rparr>];
          n' = (if p then n + 1 else n)
      in criteria_loop re_search output cs (printed @ w, crs', n'))"

definition evaluate_test ::
  "regex_engine \<Rightarrow> behavioral_test \<Rightarrow> string \<Rightarrow> message list \<times> evaluation" where
  "evaluate_test re_search test_def output =
     (let total = length (success_criteria test_def);
          (printed, crs, n) = criteria_loop re_search output (success_criteria test_def) ([], [], 0)
      in (printed,
          \<lparr>ev_test_id = test_id test_def,
           ev_test_name = test_name test_def,
           criteria_results = crs,
           passed_criteria = n,
           total_criteria = total,
           passed = (n = total),
           output_length = length output,
           score = (if total > 0 then of_nat n / of_nat total else 0)\<rparr>))"

text \<open>
  A small engine to run the model on: it knows literal patterns only, compared without
  regard to ASCII case, and refuses a pattern that holds an opening bracket, as Python
  refuses \<^verbatim>\<open>(\<close>.
\<close>

definition lower_char :: "char \<Rightarrow> char" where
  "lower_char c =
     (let n = of_char c :: nat in if 65 \<le> n \<and> n \<le> 90 then char_of (n + 32) else c)"

definition lower :: "string \<Rightarrow> string" where
  "lower s = map lower_char s"

fun contains :: "string \<Rightarrow> string \<Rightarrow> bool" where
  "contains [] needle = (needle = [])"
| "contains (x # xs) needle =
     (take (length needle) (x # xs) = needle \<or> contains xs needle)"

definition literal_search :: regex_engine where
  "literal_search pattern text =
     (if CHR ''('' \<in> set pattern then Inl (ReError ''missing ), unterminated subpattern'')
      else Inr (contains (lower text) (lower pattern)))"

section \<open>Materialising a variant's configuration: \<^verbatim>\<open>GenericBenchmark.prepare_variant_config\<close>\<close>

text \<open>
  A variant of a test definition has a name, a configuration and, optionally, dotted-path
  overrides. \<^verbatim>\<open>variant.get('config')\<close> is a string (the path of a configuration
  file), a mapping (the configuration itself), or anything else, absent included.
\<close>

datatype config_source =
    ConfigPath string
  | ConfigInline "(string \<times> pyval) list"
  | ConfigOther

record variant_def =
  variant_name :: string
  config :: config_source
  config_overrides :: "(string \<times> pyval) list option"

text \<open>
  The world outside the process: the text files by path, which paths can be opened for
  writing, every write made so far (path and text, oldest first), and the lines printed.
  Paths are the strings the program builds: directories are not modelled, and neither is
  the normal form (\<^verbatim>\<open>a//b\<close> to \<^verbatim>\<open>a/b\<close>) that \<^verbatim>\<open>pathlib\<close> gives a path.
\<close>

record world =
  files :: "string \<rightharpoonup> string"
  writable :: "string \<Rightarrow> bool"
  writes :: "(string \<times> string) list"
  stdout :: "message list"

definition read_file :: "world \<Rightarrow> string \<Rightarrow> py_error + string" where
  "read_file w p = (case files w p of Some text \<Rightarrow> Inr text | None \<Rightarrow> Inl (OSError p))"

definition write_file :: "world \<Rightarrow> string \<Rightarrow> string \<Rightarrow> py_error + world" where
  "write_file w p text =
     (if writable w p
      then Inr (w\<lparr>files := (files w)(p \<mapsto> text), writes := writes w @ [(p, text)]\<rparr>)
      else Inl (OSError p))"

definition print_line :: "world \<Rightarrow> message \<Rightarrow> world" where
  "print_line w m = w\<lparr>stdout := stdout w @ [m]\<rparr>"

text \<open>
  \<^verbatim>\<open>yaml.safe_load\<close> returns a graph of objects, not a tree: a document that uses
  an anchor and an alias (\<^verbatim>\<open>a: &x {}\<close>, \<^verbatim>\<open>b: *x\<close>) yields one dictionary that
  two keys refer to, and \<^verbatim>\<open>_set_nested_key\<close> changes it in place. For the loaded
  configuration the dictionaries and lists therefore live in a store: an object is held
  at an address, and a value is a scalar or a reference to an address. A new object goes
  to the first unused address.
\<close>

datatype hval =
    HNone
  | HBool bool
  | HInt int
  | HFloat rat
  | HStr string
  | HRef nat

datatype hobj =
    HList "hval list"
  | HDict "(string \<times> hval) list"

type_synonym heap = "hobj list"

definition heap_get :: "heap \<Rightarrow> nat \<Rightarrow> hobj option" where
  "heap_get h a = (if a < length h then Some (h ! a) else None)"

text \<open>
  An override value comes from the JSON test definition, which has no sharing: \<open>alloc\<close>
  puts such a tree into the store and returns the value that stands for it. (In Python the
  value is the object of the variant itself, so a later override that goes through it
  changes the variant too; the model takes the variant as it is when the function is
  called.)
\<close>

fun alloc :: "heap \<Rightarrow> pyval \<Rightarrow> heap \<times> hval"
  and alloc_list :: "heap \<Rightarrow> pyval list \<Rightarrow> heap \<times> hval list"
  and alloc_items :: "heap \<Rightarrow> (string \<times> pyval) list \<Rightarrow> heap \<times> (string \<times> hval) list" where
  "alloc h PNone = (h, HNone)"
| "alloc h (PBool b) = (h, HBool b)"
| "alloc h (PInt i) = (h, HInt i)"
| "alloc h (PFloat x) = (h, HFloat x)"
| "alloc h (PStr s) = (h, HStr s)"
| "alloc h (PList xs) = (let (h', vs) = alloc_list h xs in (h' @ [HList vs], HRef (length h')))"
| "alloc h (PDict kvs) = (let (h', items) = alloc_items h kvs in (h' @ [HDict items], HRef (length h')))"
| "alloc_list h [] = (h, [])"
| "alloc_list h (x # xs) =
     (let (h1, v) = alloc h x; (h2, vs) = alloc_list h1 xs in (h2, v # vs))"
| "alloc_items h [] = (h, [])"
| "alloc_items h ((k, x) # kvs) =
     (let (h1, v) = alloc h x; (h2, items) = alloc_items h1 kvs in (h2, (k, v) # items))"

text \<open>
  \<^verbatim>\<open>_set_nested_key\<close> on the store, as the source writes it: \<^verbatim>\<open>d.setdefault(key, {})\<close>
  returns the value found under the key or stores a reference to a new empty dictionary
  there, the loop goes on from the value returned, and \<^verbatim>\<open>d[keys[-1]] = value\<close>
  changes the dictionary that the loop has reached. Whatever else refers to that dictionary
  sees the change. (A reference to an unused address does not arise; it is treated as a
  value that is no dictionary.)
\<close>

fun setdefault_at :: "heap \<Rightarrow> hval \<Rightarrow> string \<Rightarrow> py_error + (heap \<times> hval)" where
  "setdefault_at h (HRef a) k =
     (case heap_get h a of
        Some (HDict kvs) \<Rightarrow>
          (case map_of kvs k of
             Some child \<Rightarrow> Inr (h, child)
           | None \<Rightarrow> Inr (h[a := HDict (kvs @ [(k, HRef (length h))])] @ [HDict []],
                          HRef (length h)))
      | _ \<Rightarrow> Inl AttributeError)"
| "setdefault_at h _ k = Inl AttributeError"

fun setitem_at :: "heap \<Rightarrow> hval \<Rightarrow> string \<Rightarrow> hval \<Rightarrow> py_error + heap" where
  "setitem_at h (HRef a) k v =
     (case heap_get h a of
        Some (HDict kvs) \<Rightarrow> Inr (h[a := HDict (AList.update k v kvs)])
      | _ \<Rightarrow> Inl TypeError)"
| "setitem_at h _ k v = Inl TypeError"

fun set_nested_keys_at :: "heap \<Rightarrow> hval \<Rightarrow> string list \<Rightarrow> hval \<Rightarrow> py_error + heap" where
  "set_nested_keys_at h d [] v = Inl IndexError"
| "set_nested_keys_at h d [k] v = setitem_at h d k v"
| "set_nested_keys_at h d (k # ks) v =
     (case setdefault_at h d k of
        Inl e \<Rightarrow> Inl e
      | Inr (h', d') \<Rightarrow> set_nested_keys_at h' d' ks v)"

definition set_nested_key_at :: "heap \<Rightarrow> hval \<Rightarrow> string \<Rightarrow> hval \<Rightarrow> py_error + heap" where
  "set_nested_key_at h d key_path v = set_nested_keys_at h d (split_on (CHR ''.'') key_path) v"

text \<open>
  \<^verbatim>\<open>
  for key, value in variant['config_overrides'].items():
      self._set_nested_key(config, key, value)
  \<close>
\<close>

fun apply_overrides :: "heap \<Rightarrow> hval \<Rightarrow> (string \<times> pyval) list \<Rightarrow> py_error + heap" where
  "apply_overrides h cfg [] = Inr h"
| "apply_overrides h cfg ((key, x) # rest) =
     (let (h1, v) = alloc h x
      in case set_nested_key_at h1 cfg key v of
           Inl e \<Rightarrow> Inl e
         | Inr h2 \<Rightarrow> apply_overrides h2 cfg rest)"

text \<open>
  The tree that a value of the store unfolds to, down to a given depth: what a reader of
  the dumped document sees, shared dictionaries written out at every place.
\<close>

fun tree_of :: "nat \<Rightarrow> heap \<Rightarrow> hval \<Rightarrow> pyval" where
  "tree_of n h HNone = PNone"
| "tree_of n h (HBool b) = PBool b"
| "tree_of n h (HInt i) = PInt i"
| "tree_of n h (HFloat x) = PFloat x"
| "tree_of n h (HStr s) = PStr s"
| "tree_of 0 h (HRef a) = PNone"
| "tree_of (Suc n) h (HRef a) =
     (case heap_get h a of
        Some (HList vs) \<Rightarrow> PList (map (tree_of n h) vs)
      | Some (HDict kvs) \<Rightarrow> PDict (map (\<lambda>(k, v). (k, tree_of n h v)) kvs)
      | None \<Rightarrow> PNone)"

text \<open>
  \<^verbatim>\<open>
  def prepare_variant_config(self, variant: Dict, provider: str) -> Optional[Path]:
      config_path = variant.get('config')
      if isinstance(config_path, str):
          config_file = Path(config_path)
          if not config_file.exists():
              print(f"...  Config file not found: {config_file}")
              return None
          if 'config_overrides' in variant:
              with open(config_file) as f:
                  config = yaml.safe_load(f)
              for key, value in variant['config_overrides'].items():
                  self._set_nested_key(config, key, value)
              temp_config = self.results_dir / f"{variant['name']}_{provider}_temp.yaml"
              with open(temp_config, 'w') as f:
                  yaml.safe_dump(config, f)
              return temp_config
          return config_file
      elif isinstance(config_path, dict):
          config = config_path
          temp_config = self.results_dir / f"{variant['name']}_{provider}_temp.yaml"
          with open(temp_config, 'w') as f:
              yaml.safe_dump(config, f)
          return temp_config
      return None
  \<close>
  The YAML reader and writer and \<^verbatim>\<open>pathlib\<close>'s \<^verbatim>\<open>/\<close> are library code:
  the parameters \<open>yaml_safe_load\<close> (a text to the store of the objects it describes and
  the value of the document, or the parser's exception), \<open>yaml_safe_dump\<close> (a store and
  a value to the text of the document) and \<open>path_div\<close>. The result is the path
  returned (\<open>None\<close> as in the source) with the world afterwards, or the exception that
  leaves the function. The inline configuration is dumped as it stands in the variant: the
  second branch does not read \<^verbatim>\<open>config_overrides\<close>.
\<close>

definition temp_config_path ::
  "(string \<Rightarrow> string \<Rightarrow> string) \<Rightarrow> string \<Rightarrow> variant_def \<Rightarrow> string \<Rightarrow> string" where
  "temp_config_path path_div results_dir v provider =
     path_div results_dir (variant_name v @ ''_'' @ provider @ ''_temp.yaml'')"

definition prepare_variant_config ::
  "(string \<Rightarrow> py_error + heap \<times> hval) \<Rightarrow> (heap \<Rightarrow> hval \<Rightarrow> string)
     \<Rightarrow> (string \<Rightarrow> string \<Rightarrow> string)
     \<Rightarrow> string \<Rightarrow> world \<Rightarrow> variant_def \<Rightarrow> string \<Rightarrow> py_error + (string option \<times> world)" where
  "prepare_variant_config yaml_safe_load yaml_safe_dump path_div results_dir w v provider =
     (case config v of
        ConfigPath config_file \<Rightarrow>
          if files w config_file = None
          then Inr (None, print_line w (ConfigFileNotFound config_file))
          else (case config_overrides v of
                  Some overrides \<Rightarrow>
                    (case read_file w config_file of
                       Inl e \<Rightarrow> Inl e
                     | Inr body \<Rightarrow>
                        (case yaml_safe_load body of
                           Inl e \<Rightarrow> Inl e
                         | Inr (h, cfg) \<Rightarrow>
                            (case apply_overrides h cfg overrides of
                               Inl e \<Rightarrow> Inl e
                             | Inr h' \<Rightarrow>
                                (let temp_config = temp_config_path path_div results_dir v provider
                                 in case write_file w temp_config (yaml_safe_dump h' cfg) of
                                      Inl e \<Rightarrow> Inl e
                                    | Inr w' \<Rightarrow> Inr (Some temp_config, w')))))
                | None \<Rightarrow> Inr (Some config_file, w))
      | ConfigInline cfg \<Rightarrow>
          (let temp_config = temp_config_path path_div results_dir v provider;
               (h, d) = alloc [] (PDict cfg)
           in case write_file w temp_config (yaml_safe_dump h d) of
                Inl e \<Rightarrow> Inl e
              | Inr w' \<Rightarrow> Inr (Some temp_config, w'))
      | ConfigOther \<Rightarrow> Inr (None, w))"

text \<open>
  Sample library functions and sample worlds to run the model on: a reader that knows two
  documents, the second with an alias; a writer that renders the documents of the
  examples from the tree they unfold to; path joining with a slash; a world that holds one
  configuration file and one that holds the file with the alias, both letting every path
  be written.
\<close>

definition sample_yaml_load :: "string \<Rightarrow> py_error + heap \<times> hval" where
  "sample_yaml_load body =
     (if body = ''agents: {}''
      then Inr ([HDict [(''agents'', HRef 1)], HDict []], HRef 0)
      else if body = ''{a: &x {}, b: *x}''
      then Inr ([HDict [(''a'', HRef 1), (''b'', HRef 1)], HDict []], HRef 0)
      else Inl (YAMLError body))"

definition sample_yaml_dump :: "heap \<Rightarrow> hval \<Rightarrow> string" where
  "sample_yaml_dump h d =
     (let t = tree_of (Suc (length h)) h d
      in if t = PDict [(''agents'', PDict [(''a'', PDict [(''model'', PStr ''m'')])])]
         then ''agents: {a: {model: m}}''
         else if t = PDict [(''agents'', PDict [])] then ''agents: {}''
         else if t = PDict [(''a'', PDict [(''k'', PInt 1)]), (''b'', PDict [(''k'', PInt 1)])]
         then ''{a: &x {k: 1}, b: *x}''
         else ''...'')"

definition slash_join :: "string \<Rightarrow> string \<Rightarrow> string" where
  "slash_join dir file = dir @ CHR ''/'' # file"

definition sample_world :: world where
  "sample_world =
     \<lparr>files = [''configs/base.yaml'' \<mapsto> ''agents: {}''],
      writable = (\<lambda>p. True),
      writes = [],
      stdout = []\<rparr>"

definition file_variant :: variant_def where
  "file_variant =
     \<lparr>variant_name = ''baseline'', config = ConfigPath ''configs/base.yaml'',
      config_overrides = None\<rparr>"

definition override_variant :: variant_def where
  "override_variant =
     \<lparr>variant_name = ''tuned'', config = ConfigPath ''configs/base.yaml'',
      config_overrides = Some [(''agents.a.model'', PStr ''m'')]\<rparr>"

definition alias_world :: world where
  "alias_world =
     \<lparr>files = [''configs/alias.yaml'' \<mapsto> ''{a: &x {}, b: *x}''],
      writable = (\<lambda>p. True),
      writes = [],
      stdout = []\<rparr>"

definition alias_variant :: variant_def where
  "alias_variant =
     \<lparr>variant_name = ''shared'', config = ConfigPath ''configs/alias.yaml'',
      config_overrides = Some [(''a.k'', PInt 1)]\<rparr>"

definition inline_variant :: variant_def where
  "inline_variant =
     \<lparr>variant_name = ''inline'', config = ConfigInline [(''agents'', PDict [])],
      config_overrides = None\<rparr>"

definition inline_override_variant :: variant_def where
  "inline_override_variant =
     \<lparr>variant_name = ''inline'', config = ConfigInline [(''agents'', PDict [])],
      config_overrides = Some [(''agents.a.model'', PStr ''m'')]\<rparr>"

section \<open>Running one scenario: \<^verbatim>\<open>GenericBenchmark.run_scenario\<close>\<close>

record scenario_def =
  scenario_name :: string
  prompt :: string
  expected_output_keywords :: "string list option"

text \<open>
  What the two subprocess calls of \<^verbatim>\<open>run_scenario\<close> can do. Starting the server
  (\<^verbatim>\<open>subprocess.Popen\<close>) may raise; if it does not, the call
  \<^verbatim>\<open>subprocess.run(..., timeout=60)\<close> returns the captured standard output and the
  exit status, after a time the harness measures with \<^verbatim>\<open>time.time()\<close>, or raises
  \<^verbatim>\<open>TimeoutExpired\<close>, or raises something else.
\<close>

datatype call_outcome =
    LaunchFailed py_error
  | Completed string int rat
  | TimeoutExpired
  | CallRaised py_error

text \<open>
  The record of one execution is a dictionary; the keys \<^verbatim>\<open>scenario\<close>,
  \<^verbatim>\<open>variant\<close>, \<^verbatim>\<open>success\<close> and \<^verbatim>\<open>elapsed_time\<close> are in every record the
  function builds, the others are optional (\<open>output_head\<close> is the key \<^verbatim>\<open>output\<close>).
\<close>

record exec_record =
  scenario :: string
  variant :: string
  success :: bool
  elapsed_time :: rat
  error :: "string option"
  tokens :: "int option"
  iterations :: "int option"
  output_head :: "string option"

text \<open>
  \<^verbatim>\<open>
  def _extract_metric(self, output: str, metric_name: str) -> int:
      patterns = {
          'tokens': r'(\d+)\s*tokens?',
          'iteration': r'iteration\s*(\d+)',
      }
      pattern = patterns.get(metric_name)
      if pattern:
          match = re.search(pattern, output, re.IGNORECASE)
          if match:
              return int(match.group(1))
      return 0
  \<close>
  The parameter \<open>re_group_int\<close> is the search together with the conversion of the first
  group: for a pattern and a text, the integer the first match captures, if there is a
  match.
\<close>

definition backslash :: char where
  "backslash = CHR 0x5C"

definition patterns :: "(string \<times> string) list" where
  "patterns =
     [(''tokens'', ''('' @ backslash # ''d+)'' @ backslash # ''s*tokens?''),
      (''iteration'', ''iteration'' @ backslash # ''s*('' @ backslash # ''d+)'')]"

definition extract_metric :: "(string \<Rightarrow> string \<Rightarrow> int option) \<Rightarrow> string \<Rightarrow> string \<Rightarrow> int" where
  "extract_metric re_group_int output metric_name =
     (case map_of patterns metric_name of
        Some pattern \<Rightarrow>
          (case re_group_int pattern output of Some n \<Rightarrow> n | None \<Rightarrow> 0)
      | None \<Rightarrow> 0)"

text \<open>
  \<^verbatim>\<open>
  for keyword in scenario['expected_output_keywords']:
      if keyword.lower() not in output.lower():
          success = False
          break
  \<close>
  (\<open>ok\<close> is the variable \<^verbatim>\<open>success\<close>).
\<close>

fun check_keywords :: "string list \<Rightarrow> string \<Rightarrow> bool \<Rightarrow> bool" where
  "check_keywords [] output ok = ok"
| "check_keywords (keyword # rest) output ok =
     (if \<not> contains (lower output) (lower keyword) then False
      else check_keywords rest output ok)"

text \<open>
  \<^verbatim>\<open>
  try:
      start_time = time.time()
      result = subprocess.run([str(self.hector_bin), 'call', agent_name, prompt],
                              capture_output=True, text=True, timeout=60, cwd='.')
      elapsed_time = time.time() - start_time
      output = result.stdout
      success = result.returncode == 0
      tokens = self._extract_metric(output, 'tokens')
      iterations = self._extract_metric(output, 'iteration')
      if 'expected_output_keywords' in scenario:
          for keyword in scenario['expected_output_keywords']: ...
      return {'scenario': scenario_name, 'variant': variant['name'], 'success': success,
              'elapsed_time': elapsed_time, 'tokens': tokens, 'iterations': iterations,
              'output': output[:500]}
  except subprocess.TimeoutExpired:
      return {'scenario': scenario_name, 'variant': variant['name'], 'success': False,
              'error': 'Timeout', 'elapsed_time': 60}
  finally:
      server_proc.terminate()
      server_proc.wait()
  \<close>
  The server process and its log file do not reach the record and are left out.
\<close>

definition run_scenario ::
  "(string \<Rightarrow> string \<Rightarrow> int option) \<Rightarrow> variant_def \<Rightarrow> scenario_def \<Rightarrow> call_outcome
     \<Rightarrow> py_error + exec_record" where
  "run_scenario re_group_int v sc outcome =
     (case outcome of
        LaunchFailed e \<Rightarrow> Inl e
      | Completed output returncode elapsed \<Rightarrow>
          (let success0 = (returncode = 0);
               toks = extract_metric re_group_int output ''tokens'';
               iters = extract_metric re_group_int output ''iteration'';
               success1 = (case expected_output_keywords sc of
                             Some keywords \<Rightarrow> check_keywords keywords output success0
                           | None \<Rightarrow> success0)
           in Inr \<lparr>scenario = scenario_name sc, variant = variant_name v,
                    success = success1, elapsed_time = elapsed, error = None,
                    tokens = Some toks, iterations = Some iters,
                    output_head = Some (take 500 output)\<rparr>)
      | TimeoutExpired \<Rightarrow>
          Inr \<lparr>scenario = scenario_name sc, variant = variant_name v,
                success = False, elapsed_time = 60, error = Some ''Timeout'',
                tokens = None, iterations = None, output_head = None\<rparr>
      | CallRaised e \<Rightarrow> Inl e)"

text \<open>A sample scenario and a sample metric search to run the model on.\<close>

definition sample_scenario :: scenario_def where
  "sample_scenario =
     \<lparr>scenario_name = ''echo-test'', prompt = ''say hello'',
      expected_output_keywords = Some [''hello'']\<rparr>"

definition sample_group_int :: "string \<Rightarrow> string \<Rightarrow> int option" where
  "sample_group_int pattern text =
     (if map_of patterns ''tokens'' = Some pattern \<and> contains (lower text) ''42 tokens''
      then Some 42 else None)"

section \<open>Aggregation: \<^verbatim>\<open>GenericBenchmark.generate_summary\<close>\<close>

text \<open>
  \<^verbatim>\<open>
  variants = list(set(r['variant'] for r in results))
  summary = {}
  for variant in variants:
      variant_results = [r for r in results if r['variant'] == variant]
      success_count = sum(1 for r in variant_results if r.get('success'))
      success_rate = success_count / len(variant_results) if variant_results else 0
      avg_tokens = sum(r.get('tokens', 0) for r in variant_results) / len(variant_results) if variant_results else 0
      avg_time = sum(r.get('elapsed_time', 0) for r in variant_results) / len(variant_results) if variant_results else 0
      summary[variant] = {'success_rate': success_rate, 'avg_tokens': avg_tokens,
                          'avg_time': avg_time, 'total_tests': len(variant_results)}
  \<close>
  \<open>summarize\<close> is the body of the loop for one variant name: \<^verbatim>\<open>r.get('tokens', 0)\<close>
  is 0 for a record without the key.
\<close>

record variant_summary =
  success_rate :: rat
  avg_tokens :: rat
  avg_time :: rat
  total_tests :: nat

definition summarize :: "exec_record list \<Rightarrow> string \<Rightarrow> variant_summary" where
  "summarize results v =
     (let variant_results = filter (\<lambda>r. variant r = v) results;
          success_count = length (filter success variant_results);
          rate = (if variant_results \<noteq> []
                  then of_nat success_count / of_nat (length variant_results) else 0);
          toks = (if variant_results \<noteq> []
                  then of_int (sum_list (map (\<lambda>r. case tokens r of Some t \<Rightarrow> t | None \<Rightarrow> 0)
                                             variant_results))
                       / of_nat (length variant_results)
                  else 0);
          time = (if variant_results \<noteq> []
                  then sum_list (map elapsed_time variant_results)
                       / of_nat (length variant_results)
                  else 0)
      in \<lparr>success_rate = rate, avg_tokens = toks, avg_time = time,
          total_tests = length variant_results\<rparr>)"

text \<open>
  The order in which \<^verbatim>\<open>list(set(...))\<close> lists the variant names depends on the
  hashes of the strings: it is the parameter \<open>list_of_set\<close>, of which the theorems assume
  only that it lists the elements of its argument.
\<close>

fun summary_loop ::
  "string list \<Rightarrow> exec_record list \<Rightarrow> (string \<times> variant_summary) list
     \<Rightarrow> (string \<times> variant_summary) list" where
  "summary_loop [] results summary = summary"
| "summary_loop (v # vs) results summary =
     summary_loop vs results (AList.update v (summarize results v) summary)"

definition summary_table ::
  "(string list \<Rightarrow> string list) \<Rightarrow> exec_record list \<Rightarrow> (string \<times> variant_summary) list" where
  "summary_table list_of_set results =
     summary_loop (list_of_set (map variant results)) results []"

text \<open>
  \<^verbatim>\<open>max(variants, key=lambda v: summary[v]['success_rate'])\<close> and the two
  \<^verbatim>\<open>min\<close> calls: the key looks the variant up in the summary (\<^verbatim>\<open>KeyError\<close> if
  it is not there); \<^verbatim>\<open>max\<close> and \<^verbatim>\<open>min\<close> raise \<^verbatim>\<open>ValueError\<close> on an empty
  list and otherwise keep the first element whose key no later element beats strictly.
\<close>

definition summary_field ::
  "(variant_summary \<Rightarrow> rat) \<Rightarrow> (string \<times> variant_summary) list \<Rightarrow> string \<Rightarrow> py_error + rat" where
  "summary_field field summary v =
     (case map_of summary v of Some s \<Rightarrow> Inr (field s) | None \<Rightarrow> Inl (KeyError v))"

fun py_max_loop :: "('a \<Rightarrow> py_error + rat) \<Rightarrow> 'a list \<Rightarrow> 'a \<Rightarrow> rat \<Rightarrow> py_error + 'a" where
  "py_max_loop key [] best kb = Inr best"
| "py_max_loop key (x # xs) best kb =
     (case key x of
        Inl e \<Rightarrow> Inl e
      | Inr kx \<Rightarrow> if kx > kb then py_max_loop key xs x kx else py_max_loop key xs best kb)"

definition py_max :: "('a \<Rightarrow> py_error + rat) \<Rightarrow> 'a list \<Rightarrow> py_error + 'a" where
  "py_max key xs =
     (case xs of
        [] \<Rightarrow> Inl ValueError
      | x # rest \<Rightarrow> (case key x of Inl e \<Rightarrow> Inl e | Inr kx \<Rightarrow> py_max_loop key rest x kx))"

fun py_min_loop :: "('a \<Rightarrow> py_error + rat) \<Rightarrow> 'a list \<Rightarrow> 'a \<Rightarrow> rat \<Rightarrow> py_error + 'a" where
  "py_min_loop key [] best kb = Inr best"
| "py_min_loop key (x # xs) best kb =
     (case key x of
        Inl e \<Rightarrow> Inl e
      | Inr kx \<Rightarrow> if kx < kb then py_min_loop key xs x kx else py_min_loop key xs best kb)"

definition py_min :: "('a \<Rightarrow> py_error + rat) \<Rightarrow> 'a list \<Rightarrow> py_error + 'a" where
  "py_min key xs =
     (case xs of
        [] \<Rightarrow> Inl ValueError
      | x # rest \<Rightarrow> (case key x of Inl e \<Rightarrow> Inl e | Inr kx \<Rightarrow> py_min_loop key rest x kx))"

text \<open>
  \<^verbatim>\<open>
  primary_metric = self.test_def.get('metrics', {}).get('primary', 'quality')
  if primary_metric == 'quality':
      best = max(variants, key=lambda v: summary[v]['success_rate'])
  elif primary_metric == 'cost':
      best = min(variants, key=lambda v: summary[v]['avg_tokens'])
  elif primary_metric == 'speed':
      best = min(variants, key=lambda v: summary[v]['avg_time'])
  \<close>
  The function prints the best variant; the model returns it with the summary
  (\<open>None\<close> when the primary metric is none of the three). Writing the summary to
  \<^verbatim>\<open>summary.json\<close> is left out.
\<close>

fun py_get :: "pyval \<Rightarrow> string \<Rightarrow> pyval \<Rightarrow> py_error + pyval" where
  "py_get (PDict kvs) k dflt = Inr (case map_of kvs k of Some v \<Rightarrow> v | None \<Rightarrow> dflt)"
| "py_get _ k dflt = Inl AttributeError"

definition primary_metric :: "pyval \<Rightarrow> py_error + pyval" where
  "primary_metric test_def =
     (case py_get test_def ''metrics'' (PDict []) of
        Inl e \<Rightarrow> Inl e
      | Inr metrics \<Rightarrow> py_get metrics ''primary'' (PStr ''quality''))"

definition generate_summary ::
  "(string list \<Rightarrow> string list) \<Rightarrow> pyval \<Rightarrow> exec_record list
     \<Rightarrow> py_error + ((string \<times> variant_summary) list \<times> string option)" where
  "generate_summary list_of_set test_def results =
     (let variants = list_of_set (map variant results);
          summary = summary_loop variants results []
      in case primary_metric test_def of
           Inl e \<Rightarrow> Inl e
         | Inr pm \<Rightarrow>
             if pm = PStr ''quality'' then
               (case py_max (summary_field success_rate summary) variants of
                  Inl e \<Rightarrow> Inl e | Inr best \<Rightarrow> Inr (summary, Some best))
             else if pm = PStr ''cost'' then
               (case py_min (summary_field avg_tokens summary) variants of
                  Inl e \<Rightarrow> Inl e | Inr best \<Rightarrow> Inr (summary, Some best))
             else if pm = PStr ''speed'' then
               (case py_min (summary_field avg_time summary) variants of
                  Inl e \<Rightarrow> Inl e | Inr best \<Rightarrow> Inr (summary, Some best))
             else Inr (summary, None))"

text \<open>Sample results, a sample test definition and a sample order to run the model on.\<close>

definition remdups_order :: "string list \<Rightarrow> string list" where
  "remdups_order xs = remdups xs"

definition sample_results :: "exec_record list" where
  "sample_results =
     [\<lparr>scenario = ''echo-test'', variant = ''tuned'', success = True, elapsed_time = 2,
       error = None, tokens = Some 100, iterations = Some 1, output_head = Some ''hello''\<rparr>,
      \<lparr>scenario = ''echo-test'', variant = ''tuned'', success = False, elapsed_time = 60,
       error = Some ''Timeout'', tokens = None, iterations = None, output_head = None\<rparr>,
      \<lparr>scenario = ''echo-test'', variant = ''baseline'', success = True, elapsed_time = 5,
       error = None, tokens = Some 300, iterations = Some 2, output_head = Some ''hello''\<rparr>]"

definition quality_test_def :: pyval where
  "quality_test_def = PDict [(''test_name'', PStr ''t''), (''metrics'', PDict [(''primary'', PStr ''quality'')])]"

text \<open>
  Results of three variants, with a different best variant under each objective:
  \<open>baseline\<close> succeeds most often, \<open>tuned\<close> uses the fewest tokens and \<open>fast\<close> takes
  the least time.
\<close>

definition three_variant_results :: "exec_record list" where
  "three_variant_results =
     [\<lparr>scenario = ''echo-test'', variant = ''tuned'', success = True, elapsed_time = 2,
       error = None, tokens = Some 100, iterations = Some 1, output_head = Some ''hello''\<rparr>,
      \<lparr>scenario = ''echo-test'', variant = ''tuned'', success = False, elapsed_time = 60,
       error = Some ''Timeout'', tokens = None, iterations = None, output_head = None\<rparr>,
      \<lparr>scenario = ''echo-test'', variant = ''baseline'', success = True, elapsed_time = 5,
       error = None, tokens = Some 300, iterations = Some 2, output_head = Some ''hello''\<rparr>,
      \<lparr>scenario = ''echo-test'', variant = ''fast'', success = False, elapsed_time = 1,
       error = None, tokens = Some 400, iterations = Some 1, output_head = Some ''no''\<rparr>]"

section \<open>Loading the test definition and the command line\<close>

text \<open>
  The operations of Python that \<^verbatim>\<open>load_test_definition\<close> applies to the loaded
  document, whatever its type: \<^verbatim>\<open>field in test_def\<close>, \<^verbatim>\<open>test_def[field]\<close> and
  \<^verbatim>\<open>len(...)\<close>.
\<close>

fun py_contains :: "pyval \<Rightarrow> string \<Rightarrow> py_error + bool" where
  "py_contains (PDict kvs) k = Inr (map_of kvs k \<noteq> None)"
| "py_contains (PList xs) k = Inr (PStr k \<in> set xs)"
| "py_contains (PStr s) k = Inr (contains s k)"
| "py_contains _ k = Inl TypeError"

fun py_getitem :: "pyval \<Rightarrow> string \<Rightarrow> py_error + pyval" where
  "py_getitem (PDict kvs) k =
     (case map_of kvs k of Some v \<Rightarrow> Inr v | None \<Rightarrow> Inl (KeyError k))"
| "py_getitem _ k = Inl TypeError"

fun py_len :: "pyval \<Rightarrow> py_error + nat" where
  "py_len (PStr s) = Inr (length s)"
| "py_len (PList xs) = Inr (length xs)"
| "py_len (PDict kvs) = Inr (length kvs)"
| "py_len _ = Inl TypeError"

text \<open>
  \<^verbatim>\<open>
  def load_test_definition(self) -> bool:
      if not self.test_def_path.exists():
          print(f"... Test definition not found: {self.test_def_path}")
          return False
      try:
          with open(self.test_def_path) as f:
              self.test_def = json.load(f)
          required = ['test_name', 'description', 'variants', 'scenarios']
          for field in required:
              if field not in self.test_def:
                  print(f"... Missing required field: {field}")
                  return False
          print(f"... Loaded test definition: {self.test_def['test_name']}")
          print(f"   Description: {self.test_def['description']}")
          print(f"   Variants: {len(self.test_def['variants'])}")
          print(f"   Scenarios: {len(self.test_def['scenarios'])}")
          return True
      except Exception as e:
          print(f"... Failed to load test definition: {e}")
          return False
  \<close>
  \<open>required_loop\<close> returns the first field that is missing, \<open>print_loaded\<close> makes the
  four prints and stops at the first that raises. The JSON parser is the parameter
  \<open>json_load\<close>. The result is the value returned, the attribute \<^verbatim>\<open>self.test_def\<close>
  and the world afterwards.
\<close>

fun required_loop :: "pyval \<Rightarrow> string list \<Rightarrow> py_error + string option" where
  "required_loop test_def [] = Inr None"
| "required_loop test_def (field # rest) =
     (case py_contains test_def field of
        Inl e \<Rightarrow> Inl e
      | Inr present \<Rightarrow> if \<not> present then Inr (Some field) else required_loop test_def rest)"

definition print_loaded :: "pyval \<Rightarrow> world \<Rightarrow> py_error \<times> world + world" where
  "print_loaded test_def w =
     (case py_getitem test_def ''test_name'' of
        Inl e \<Rightarrow> Inl (e, w)
      | Inr n \<Rightarrow>
         (let w1 = print_line w (LoadedTestDefinition n)
          in case py_getitem test_def ''description'' of
               Inl e \<Rightarrow> Inl (e, w1)
             | Inr d \<Rightarrow>
                (let w2 = print_line w1 (LoadedDescription d)
                 in case py_getitem test_def ''variants'' of
                      Inl e \<Rightarrow> Inl (e, w2)
                    | Inr vs \<Rightarrow>
                       (case py_len vs of
                          Inl e \<Rightarrow> Inl (e, w2)
                        | Inr nv \<Rightarrow>
                           (let w3 = print_line w2 (LoadedVariants nv)
                            in case py_getitem test_def ''scenarios'' of
                                 Inl e \<Rightarrow> Inl (e, w3)
                               | Inr ss \<Rightarrow>
                                  (case py_len ss of
                                     Inl e \<Rightarrow> Inl (e, w3)
                                   | Inr ns \<Rightarrow> Inr (print_line w3 (LoadedScenarios ns))))))))"

definition load_test_definition ::
  "(string \<Rightarrow> py_error + pyval) \<Rightarrow> string \<Rightarrow> world \<Rightarrow> bool \<times> pyval option \<times> world" where
  "load_test_definition json_load test_def_path w =
     (if files w test_def_path = None
      then (False, None, print_line w (DefinitionNotFound test_def_path))
      else case read_file w test_def_path of
             Inl e \<Rightarrow> (False, None, print_line w (DefinitionLoadFailed e))
           | Inr body \<Rightarrow>
              (case json_load body of
                 Inl e \<Rightarrow> (False, None, print_line w (DefinitionLoadFailed e))
               | Inr test_def \<Rightarrow>
                  (case required_loop test_def
                          [''test_name'', ''description'', ''variants'', ''scenarios''] of
                     Inl e \<Rightarrow> (False, Some test_def, print_line w (DefinitionLoadFailed e))
                   | Inr (Some field) \<Rightarrow>
                       (False, Some test_def, print_line w (MissingRequiredField field))
                   | Inr None \<Rightarrow>
                      (case print_loaded test_def w of
                         Inl (e, w') \<Rightarrow>
                           (False, Some test_def, print_line w' (DefinitionLoadFailed e))
                       | Inr w' \<Rightarrow> (True, Some test_def, w')))))"

text \<open>
  \<^verbatim>\<open>
  def run_benchmark(self):
      if not self.load_test_definition():
          return
      ...

  def main():
      if len(sys.argv) < 2:
          print("Usage: python generic_benchmark.py <test_definition.json>")
          ...
          sys.exit(1)
      test_def_path = sys.argv[1]
      benchmark = GenericBenchmark(test_def_path)
      benchmark.run_benchmark()
  \<close>
  \<open>run_loaded\<close> stands for the rest of \<^verbatim>\<open>run_benchmark\<close> (the loop over variants,
  providers and scenarios, and the two result files), which runs only when the definition
  has been loaded: it returns the world afterwards, or the exception it raises with the
  world at that point. \<open>main\<close> returns the exit status of the process: 1 from
  \<^verbatim>\<open>sys.exit(1)\<close>, 1 with a traceback when an exception leaves \<^verbatim>\<open>main\<close>, and 0
  when \<^verbatim>\<open>main\<close> returns.
\<close>

definition run_benchmark ::
  "(string \<Rightarrow> py_error + pyval) \<Rightarrow> (pyval option \<Rightarrow> world \<Rightarrow> py_error \<times> world + world)
     \<Rightarrow> string \<Rightarrow> world \<Rightarrow> py_error \<times> world + world" where
  "run_benchmark json_load run_loaded test_def_path w =
     (case load_test_definition json_load test_def_path w of
        (False, test_def, w') \<Rightarrow> Inr w'
      | (True, test_def, w') \<Rightarrow> run_loaded test_def w')"

definition main ::
  "(string \<Rightarrow> py_error + pyval) \<Rightarrow> (pyval option \<Rightarrow> world \<Rightarrow> py_error \<times> world + world)
     \<Rightarrow> string list \<Rightarrow> world \<Rightarrow> int \<times> world" where
  "main json_load run_loaded argv w =
     (if length argv < 2 then (1, print_line w Usage)
      else (let test_def_path = argv ! 1
            in case run_benchmark json_load run_loaded test_def_path w of
                 Inl (e, w') \<Rightarrow> (1, print_line w' (Traceback e))
               | Inr w' \<Rightarrow> (0, w')))"

text \<open>A parser that accepts nothing and a run that does nothing, to evaluate \<open>main\<close> on.\<close>

definition sample_json_load :: "string \<Rightarrow> py_error + pyval" where
  "sample_json_load body = Inl (JSONDecodeError body)"

definition no_run :: "pyval option \<Rightarrow> world \<Rightarrow> py_error \<times> world + world" where
  "no_run test_def w = Inr w"

section \<open>The comparison report: \<^verbatim>\<open>BehavioralTester.generate_comparison_report\<close>\<close>

text \<open>
  The results of one configuration are the dictionaries \<^verbatim>\<open>run_behavioral_suite\<close>
  collects: the evaluation of a test, or, when the call itself failed,
  \<^verbatim>\<open>{'test_id': ..., 'test_name': ..., 'execution_failed': True, 'passed': False, 'score': 0.0}\<close>.
  \<open>result_passed\<close> is \<^verbatim>\<open>r.get('passed', False)\<close> and \<open>result_score\<close> is
  \<^verbatim>\<open>r.get('score', 0)\<close>.
\<close>

datatype suite_result =
    Evaluated evaluation
  | ExecutionFailed string string

fun result_passed :: "suite_result \<Rightarrow> bool" where
  "result_passed (Evaluated ev) = passed ev"
| "result_passed (ExecutionFailed tid tname) = False"

fun result_score :: "suite_result \<Rightarrow> rat" where
  "result_score (Evaluated ev) = score ev"
| "result_score (ExecutionFailed tid tname) = 0"

text \<open>
  \<^verbatim>\<open>
  config_summaries = {}
  for config_name, results in by_config.items():
      total = len(results)
      passed = len([r for r in results if r.get('passed', False)])
      partial = len([r for r in results if not r.get('passed', False) and r.get('score', 0) > 0])
      failed = len([r for r in results if r.get('score', 0) == 0])
      avg_score = sum(r.get('score', 0) for r in results) / total if total > 0 else 0
      pass_rate = (passed / total * 100) if total > 0 else 0
      config_summaries[config_name] = {
          'tests_total': total, 'tests_passed': passed, 'tests_partial': partial,
          'tests_failed': failed, 'avg_quality_score': avg_score * 100, 'pass_rate': pass_rate}
  \<close>
  A summary is the dictionary itself, with the keys the source gives it.
\<close>

definition config_summary :: "suite_result list \<Rightarrow> (string \<times> rat) list" where
  "config_summary results =
     (let n_total = length results;
          n_passed = length (filter result_passed results);
          n_partial = length (filter (\<lambda>r. \<not> result_passed r \<and> result_score r > 0) results);
          n_failed = length (filter (\<lambda>r. result_score r = 0) results);
          avg_score = (if n_total > 0 then sum_list (map result_score results) / of_nat n_total
                       else 0);
          pass_rate = (if n_total > 0 then of_nat n_passed / of_nat n_total * 100 else 0)
      in [(''tests_total'', of_nat n_total),
          (''tests_passed'', of_nat n_passed),
          (''tests_partial'', of_nat n_partial),
          (''tests_failed'', of_nat n_failed),
          (''avg_quality_score'', avg_score * 100),
          (''pass_rate'', pass_rate)])"

fun config_summaries_loop ::
  "(string \<times> suite_result list) list \<Rightarrow> (string \<times> (string \<times> rat) list) list
     \<Rightarrow> (string \<times> (string \<times> rat) list) list" where
  "config_summaries_loop [] config_summaries = config_summaries"
| "config_summaries_loop ((config_name, results) # rest) config_summaries =
     config_summaries_loop rest
       (AList.update config_name (config_summary results) config_summaries)"

definition config_summaries ::
  "(string \<times> suite_result list) list \<Rightarrow> (string \<times> (string \<times> rat) list) list" where
  "config_summaries all_results = config_summaries_loop all_results []"

text \<open>
  \<open>dict_get d k dflt\<close> is \<^verbatim>\<open>d.get(k, dflt)\<close> and \<open>dict_item d k\<close> is \<^verbatim>\<open>d[k]\<close>,
  which raises \<^verbatim>\<open>KeyError\<close> for a missing key.
\<close>

definition dict_get :: "(string \<times> 'v) list \<Rightarrow> string \<Rightarrow> 'v \<Rightarrow> 'v" where
  "dict_get d k dflt = (case map_of d k of Some v \<Rightarrow> v | None \<Rightarrow> dflt)"

definition dict_item :: "(string \<times> 'v) list \<Rightarrow> string \<Rightarrow> py_error + 'v" where
  "dict_item d k = (case map_of d k of Some v \<Rightarrow> Inr v | None \<Rightarrow> Inl (KeyError k))"

text \<open>
  \<^verbatim>\<open>
  baseline_summary = config_summaries.get('Baseline', {})
  baseline_score = baseline_summary.get('avg_score', 0)
  if baseline_score > 0:
      for config_name, summary in config_summaries.items():
          if config_name == 'Baseline':
              continue
          score_improvement = summary['avg_score'] - baseline_score
          pass_rate = summary['passed'] / summary['total'] * 100 if summary['total'] > 0 else 0
          improvement_str = f"{score_improvement*100:+.1f}%"
          print(f"{config_name:<30} {improvement_str:<20} {pass_rate:<14.1f}%")
  \<close>
  The model returns the rows the loop prints (configuration, score improvement, pass
  rate), \<open>None\<close> when the condition fails and the table is left out.
\<close>

fun improvement_rows ::
  "rat \<Rightarrow> (string \<times> (string \<times> rat) list) list \<Rightarrow> py_error + (string \<times> rat \<times> rat) list" where
  "improvement_rows baseline_score [] = Inr []"
| "improvement_rows baseline_score ((config_name, summary) # rest) =
     (if config_name = ''Baseline'' then improvement_rows baseline_score rest
      else case dict_item summary ''avg_score'' of
             Inl e \<Rightarrow> Inl e
           | Inr avg_score \<Rightarrow>
              (let score_improvement = avg_score - baseline_score
               in case dict_item summary ''total'' of
                    Inl e \<Rightarrow> Inl e
                  | Inr n_total \<Rightarrow>
                     (case (if n_total > 0
                            then (case dict_item summary ''passed'' of
                                    Inl e \<Rightarrow> Inl e
                                  | Inr n_passed \<Rightarrow> Inr (n_passed / n_total * 100))
                            else Inr 0) of
                        Inl e \<Rightarrow> Inl e
                      | Inr pass_rate \<Rightarrow>
                         (case improvement_rows baseline_score rest of
                            Inl e \<Rightarrow> Inl e
                          | Inr rows \<Rightarrow>
                              Inr ((config_name, score_improvement, pass_rate) # rows)))))"

definition improvement_analysis ::
  "(string \<times> (string \<times> rat) list) list \<Rightarrow> py_error + (string \<times> rat \<times> rat) list option" where
  "improvement_analysis summaries =
     (let baseline_summary = dict_get summaries ''Baseline'' [];
          baseline_score = dict_get baseline_summary ''avg_score'' 0
      in if baseline_score > 0
         then (case improvement_rows baseline_score summaries of
                 Inl e \<Rightarrow> Inl e
               | Inr rows \<Rightarrow> Inr (Some rows))
         else Inr None)"

text \<open>
  \<^verbatim>\<open>
  reflection_config = config_summaries.get('Reflection Only', {})
  if reflection_config and baseline_summary:
      reflection_improvement = (reflection_config['avg_score'] - baseline_summary['avg_score']) * 100
  \<close>
\<close>

definition reflection_improvement ::
  "(string \<times> (string \<times> rat) list) list \<Rightarrow> py_error + rat option" where
  "reflection_improvement summaries =
     (let baseline_summary = dict_get summaries ''Baseline'' [];
          reflection_config = dict_get summaries ''Reflection Only'' []
      in if reflection_config \<noteq> [] \<and> baseline_summary \<noteq> []
         then (case dict_item reflection_config ''avg_score'' of
                 Inl e \<Rightarrow> Inl e
               | Inr r \<Rightarrow>
                  (case dict_item baseline_summary ''avg_score'' of
                     Inl e \<Rightarrow> Inl e
                   | Inr b \<Rightarrow> Inr (Some ((r - b) * 100))))
         else Inr None)"

text \<open>Sample results of two runs to evaluate the report on.\<close>

definition passing_result :: suite_result where
  "passing_result =
     Evaluated \<lparr>ev_test_id = ''t1'', ev_test_name = ''greets'',
       criteria_results = [\<lparr>cr_criterion = ''c1'', cr_description = ''d1'', cr_passed = True\<rparr>,
                           \<lparr>cr_criterion = ''c2'', cr_description = ''d2'', cr_passed = True\<rparr>],
       passed_criteria = 2, total_criteria = 2, passed = True, output_length = 9,
       score = 1\<rparr>"

definition partial_result :: suite_result where
  "partial_result =
     Evaluated \<lparr>ev_test_id = ''t1'', ev_test_name = ''greets'',
       criteria_results = [\<lparr>cr_criterion = ''c1'', cr_description = ''d1'', cr_passed = True\<rparr>,
                           \<lparr>cr_criterion = ''c2'', cr_description = ''d2'', cr_passed = False\<rparr>],
       passed_criteria = 1, total_criteria = 2, passed = False, output_length = 9,
       score = 1 / 2\<rparr>"

definition baseline_run :: "(string \<times> suite_result list) list" where
  "baseline_run = [(''Baseline'', [passing_result]), (''Supervisor'', [partial_result])]"

definition reflection_run :: "(string \<times> suite_result list) list" where
  "reflection_run = [(''Baseline'', [passing_result]), (''Reflection Only'', [partial_result])]"

section \<open>Properties of the override walk\<close>

lemma split_on_nonempty: "split_on c s \<noteq> []"
  by (induction s) (auto simp: Let_def)

lemma split_on_no_sep: "c \<notin> set s \<Longrightarrow> split_on c s = [s]"
  by (induction s) (auto simp: Let_def)

lemma split_on_append_sep:
  "c \<notin> set k \<Longrightarrow> split_on c (k @ c # rest) = k # split_on c rest"
  by (induction k) (auto simp: Let_def)

lemma split_on_dotted:
  assumes "ks \<noteq> []" and "\<forall>k\<in>set ks. CHR ''.'' \<notin> set k"
  shows "split_on (CHR ''.'') (dotted ks) = ks"
  using assms
proof (induction ks rule: dotted.induct)
  case 1
  then show ?case by simp
next
  case (2 k)
  then show ?case by (simp add: split_on_no_sep)
next
  case (3 k k' ks)
  then show ?case by (simp add: split_on_append_sep)
qed

lemma set_nested_keys_empty:
  "ks \<noteq> [] \<Longrightarrow> set_nested_keys (PDict []) ks v = Inr (nested_mapping ks v)"
proof (induction ks)
  case Nil
  then show ?case by simp
next
  case (Cons k ks)
  show ?case
  proof (cases ks)
    case Nil
    then show ?thesis by simp
  next
    case (Cons k' ks')
    with Cons.IH show ?thesis by simp
  qed
qed

text \<open>
  Claim C2. A dotted override path \<open>a.b.c\<close> (any number of segments, none of them
  containing a dot) with value \<open>v\<close>, applied to the empty base configuration, returns
  without an exception, and the configuration is then exactly the nested mappings
  \<open>a \<rightarrow> b \<rightarrow> c \<rightarrow> v\<close>: its only top-level key is the first segment, and every missing
  intermediate mapping has been created.
\<close>

theorem set_nested_key_empty_base:
  assumes "ks \<noteq> []" and "\<forall>k\<in>set ks. CHR ''.'' \<notin> set k"
  shows "set_nested_key (PDict []) (dotted ks) v = Inr (nested_mapping ks v)"
  using assms by (simp add: set_nested_key_def split_on_dotted set_nested_keys_empty)

theorem set_nested_key_empty_base_witness:
  "set_nested_key (PDict []) ''a.b.c'' (PInt 7)
     = Inr (PDict [(''a'', PDict [(''b'', PDict [(''c'', PInt 7)])])])"
  using set_nested_key_empty_base [of "[''a'', ''b'', ''c'']" "PInt 7"] by simp

section \<open>Properties of criterion evaluation\<close>

lemma check_criterion_verdict:
  "snd (check_criterion re_search out c) = (re_search (check_pattern c) out = Inr True)"
  by (auto simp: check_criterion_def split: sum.splits)

lemma criteria_loop_count:
  "snd (snd (criteria_loop re_search out cs (pr, crs, n)))
     = n + length (filter (\<lambda>c. re_search (check_pattern c) out = Inr True) cs)"
proof (induction cs arbitrary: pr crs n)
  case Nil
  then show ?case by simp
next
  case (Cons c cs)
  obtain w p where wp: "check_criterion re_search out c = (w, p)"
    by (cases "check_criterion re_search out c")
  then have p: "p = (re_search (check_pattern c) out = Inr True)"
    using check_criterion_verdict [of re_search out c] by simp
  show ?case
    using Cons.IH wp p by (simp add: Let_def)
qed

lemma literal_search_examples:
  "literal_search ''HELLO'' ''say hello'' = Inr True"
  "literal_search ''bye'' ''say hello'' = Inr False"
  by code_simp+

lemma filter_all_iff: "length (filter P xs) = length xs \<longleftrightarrow> (\<forall>x\<in>set xs. P x)"
  by (metis filter_id_conv length_filter_less less_irrefl filter_True)

lemma evaluate_test_fields:
  fixes re_search t out
  defines "ev \<equiv> snd (evaluate_test re_search t out)"
  shows "passed_criteria ev
           = length (filter (\<lambda>c. re_search (check_pattern c) out = Inr True)
                       (success_criteria t))"
    and "total_criteria ev = length (success_criteria t)"
    and "passed ev = (passed_criteria ev = total_criteria ev)"
    and "score ev = (if total_criteria ev > 0
                     then of_nat (passed_criteria ev) / of_nat (total_criteria ev) else 0)"
  using criteria_loop_count [of re_search out "success_criteria t" "[]" "[]" 0]
  by (auto simp: ev_def evaluate_test_def Let_def split: prod.splits)

text \<open>
  Claim C1, as the code has it. With no success criteria declared the score is exactly 0,
  and \<open>passed\<close> is true: zero criteria passed out of zero, and the test passes when the
  two counts are equal.
\<close>

theorem evaluate_test_no_criteria:
  assumes "success_criteria t = []"
  shows "score (snd (evaluate_test re_search t output)) = 0
         \<and> passed (snd (evaluate_test re_search t output))"
  using assms by (simp add: evaluate_test_def)

theorem evaluate_test_no_criteria_witness:
  "score (snd (evaluate_test literal_search
                 \<lparr>test_id = ''t1'', test_name = ''empty'', success_criteria = []\<rparr>
                 ''hello'')) = 0
   \<and> passed (snd (evaluate_test literal_search
                 \<lparr>test_id = ''t1'', test_name = ''empty'', success_criteria = []\<rparr>
                 ''hello''))"
  using evaluate_test_no_criteria
          [of "\<lparr>test_id = ''t1'', test_name = ''empty'', success_criteria = []\<rparr>"
              literal_search "''hello''"]
  by simp

text \<open>
  The claim as the specification words it (score 0 and \<open>passed\<close> false) fails on a test
  with no criteria.
\<close>

theorem evaluate_test_no_criteria_counterexample:
  "\<not> (score (snd (evaluate_test literal_search
                 \<lparr>test_id = ''t1'', test_name = ''empty'', success_criteria = []\<rparr>
                 ''hello'')) = 0
      \<and> passed (snd (evaluate_test literal_search
                 \<lparr>test_id = ''t1'', test_name = ''empty'', success_criteria = []\<rparr>
                 ''hello'')) = False)"
  by (simp add: evaluate_test_def)

text \<open>
  Claim C6. With at least one success criterion declared, \<open>passed\<close> is true exactly when
  the pattern of every criterion matches the captured output, and the score is the number
  of criteria that passed divided by the number declared; the number that passed is the
  number of criteria whose pattern matches.
\<close>

theorem evaluate_test_passed_iff_all_match:
  assumes "success_criteria t \<noteq> []"
  shows "(passed (snd (evaluate_test re_search t output))
            \<longleftrightarrow> (\<forall>c\<in>set (success_criteria t). re_search (check_pattern c) output = Inr True))
         \<and> passed_criteria (snd (evaluate_test re_search t output))
             = length (filter (\<lambda>c. re_search (check_pattern c) output = Inr True)
                         (success_criteria t))
         \<and> total_criteria (snd (evaluate_test re_search t output))
             = length (success_criteria t)
         \<and> score (snd (evaluate_test re_search t output))
             = of_nat (passed_criteria (snd (evaluate_test re_search t output)))
               / of_nat (total_criteria (snd (evaluate_test re_search t output)))"
proof -
  have "0 < length (success_criteria t)"
    using assms by simp
  then show ?thesis
    by (simp add: evaluate_test_fields filter_all_iff)
qed

theorem evaluate_test_passed_iff_all_match_witness:
  "\<not> passed (snd (evaluate_test literal_search
       \<lparr>test_id = ''t2'', test_name = ''two'', success_criteria =
          [\<lparr>criterion = ''c1'', description = ''greets'', check_pattern = ''HELLO''\<rparr>,
           \<lparr>criterion = ''c2'', description = ''parts'', check_pattern = ''bye''\<rparr>]\<rparr>
       ''say hello''))
   \<and> score (snd (evaluate_test literal_search
       \<lparr>test_id = ''t2'', test_name = ''two'', success_criteria =
          [\<lparr>criterion = ''c1'', description = ''greets'', check_pattern = ''HELLO''\<rparr>,
           \<lparr>criterion = ''c2'', description = ''parts'', check_pattern = ''bye''\<rparr>]\<rparr>
       ''say hello'')) = 1 / 2"
  using evaluate_test_passed_iff_all_match
          [of "\<lparr>test_id = ''t2'', test_name = ''two'', success_criteria =
                 [\<lparr>criterion = ''c1'', description = ''greets'', check_pattern = ''HELLO''\<rparr>,
                  \<lparr>criterion = ''c2'', description = ''parts'', check_pattern = ''bye''\<rparr>]\<rparr>"
              literal_search "''say hello''"]
  by (simp add: literal_search_examples)

text \<open>
  Claim C7. When the pattern of a criterion is malformed, so that the search raises, the
  check catches the exception, prints one warning that carries it, and returns false; it
  returns normally, and nothing is raised to the caller.
\<close>

theorem check_criterion_malformed_pattern:
  assumes "re_search (check_pattern c) output = Inl e"
  shows "check_criterion re_search output c = ([PatternWarning e], False)"
  using assms by (simp add: check_criterion_def)

theorem check_criterion_malformed_pattern_witness:
  "check_criterion literal_search ''say hello''
     \<lparr>criterion = ''c1'', description = ''broken'', check_pattern = ''(hello''\<rparr>
   = ([PatternWarning (ReError ''missing ), unterminated subpattern'')], False)"
  using check_criterion_malformed_pattern
          [of literal_search
              "\<lparr>criterion = ''c1'', description = ''broken'', check_pattern = ''(hello''\<rparr>"
              "''say hello''" "ReError ''missing ), unterminated subpattern''"]
  by (simp add: literal_search_def)

section \<open>Properties of the materialiser\<close>

text \<open>
  On the empty base configuration the walk over the store builds the same nested mappings
  as the walk over trees.
\<close>

lemma set_nested_key_at_empty_base:
  "set_nested_key_at [HDict []] (HRef 0) ''a.b.c'' (HInt 7)
     = Inr [HDict [(''a'', HRef 1)], HDict [(''b'', HRef 2)], HDict [(''c'', HInt 7)]]"
  "tree_of 3 [HDict [(''a'', HRef 1)], HDict [(''b'', HRef 2)], HDict [(''c'', HInt 7)]] (HRef 0)
     = PDict [(''a'', PDict [(''b'', PDict [(''c'', PInt 7)])])]"
  by (simp_all add: set_nested_key_at_def heap_get_def eval_nat_numeral)

text \<open>
  An override through one alias of a shared dictionary changes the dictionary, and so what
  every alias shows.
\<close>

lemma apply_overrides_alias:
  "apply_overrides [HDict [(''a'', HRef 1), (''b'', HRef 1)], HDict []] (HRef 0)
       [(''a.k'', PInt 1)]
     = Inr [HDict [(''a'', HRef 1), (''b'', HRef 1)], HDict [(''k'', HInt 1)]]"
  "tree_of 3 [HDict [(''a'', HRef 1), (''b'', HRef 1)], HDict [(''k'', HInt 1)]] (HRef 0)
     = PDict [(''a'', PDict [(''k'', PInt 1)]), (''b'', PDict [(''k'', PInt 1)])]"
  by (simp_all add: set_nested_key_at_def heap_get_def eval_nat_numeral)

lemma prepare_override_variant:
  "prepare_variant_config sample_yaml_load sample_yaml_dump slash_join ''results/generic''
     sample_world override_variant ''openai''
   = Inr (Some ''results/generic/tuned_openai_temp.yaml'',
          sample_world
            \<lparr>files := (files sample_world)
                        (''results/generic/tuned_openai_temp.yaml'' \<mapsto> ''agents: {a: {model: m}}''),
             writes := [(''results/generic/tuned_openai_temp.yaml'',
                         ''agents: {a: {model: m}}'')]\<rparr>)"
  by (simp add: prepare_variant_config_def sample_world_def override_variant_def
        read_file_def write_file_def sample_yaml_load_def sample_yaml_dump_def
        slash_join_def temp_config_path_def set_nested_key_at_def heap_get_def
        eval_nat_numeral Let_def)

lemma prepare_alias_variant:
  "prepare_variant_config sample_yaml_load sample_yaml_dump slash_join ''results/generic''
     alias_world alias_variant ''openai''
   = Inr (Some ''results/generic/shared_openai_temp.yaml'',
          alias_world
            \<lparr>files := (files alias_world)
                        (''results/generic/shared_openai_temp.yaml'' \<mapsto> ''{a: &x {k: 1}, b: *x}''),
             writes := [(''results/generic/shared_openai_temp.yaml'',
                         ''{a: &x {k: 1}, b: *x}'')]\<rparr>)"
  by (simp add: prepare_variant_config_def alias_world_def alias_variant_def
        read_file_def write_file_def sample_yaml_load_def sample_yaml_dump_def
        slash_join_def temp_config_path_def set_nested_key_at_def heap_get_def
        eval_nat_numeral Let_def)

text \<open>
  An inline configuration is materialised whenever its temporary file can be written. What
  is written does not depend on the override mapping of the variant: the inline branch
  dumps the configuration as the variant gives it, where the file branch applies the
  overrides first.
\<close>

lemma prepare_inline_succeeds:
  assumes "config v = ConfigInline cfg"
    and "writable w (temp_config_path path_div results_dir v provider)"
  shows "\<exists>w'. prepare_variant_config yaml_safe_load yaml_safe_dump path_div results_dir w v provider
              = Inr (Some (temp_config_path path_div results_dir v provider), w')"
  using assms
  by (simp add: prepare_variant_config_def write_file_def Let_def split: prod.splits)

lemma prepare_inline_ignores_overrides:
  assumes "config v = ConfigInline cfg"
  shows "prepare_variant_config yaml_safe_load yaml_safe_dump path_div results_dir w
           (v\<lparr>config_overrides := overrides\<rparr>) provider
         = prepare_variant_config yaml_safe_load yaml_safe_dump path_div results_dir w v provider"
  using assms by (simp add: prepare_variant_config_def temp_config_path_def)

text \<open>
  Claim C3, as the code has it. Whenever materialisation returns a path:
  \<^item> for an inline configuration of a variant without an override mapping, the path is the
    temporary file named after the variant and the provider in the results directory, and
    the only change to the world is one write, of the dumped configuration, to that path;
  \<^item> for a configuration file with an override mapping (empty or not), the document is
    loaded, the overrides are applied in order to the loaded objects, the result is
    dumped to that same temporary path, again by exactly one write, and that path is
    returned;
  \<^item> for a configuration file with no override mapping, the path returned is the
    configuration file's own and the world is unchanged: nothing is written.
\<close>

theorem prepare_variant_config_result:
  assumes "prepare_variant_config yaml_safe_load yaml_safe_dump path_div results_dir w v provider
             = Inr (Some p, w')"
  shows "(\<forall>cfg. config v = ConfigInline cfg \<and> config_overrides v = None \<longrightarrow>
            p = temp_config_path path_div results_dir v provider
            \<and> w' = w\<lparr>files := (files w)
                                (p \<mapsto> yaml_safe_dump (fst (alloc [] (PDict cfg)))
                                                     (snd (alloc [] (PDict cfg)))),
                      writes := writes w
                                  @ [(p, yaml_safe_dump (fst (alloc [] (PDict cfg)))
                                                        (snd (alloc [] (PDict cfg))))]\<rparr>)
       \<and> (\<forall>f overrides. config v = ConfigPath f \<and> config_overrides v = Some overrides \<longrightarrow>
            (\<exists>body h cfg h'. files w f = Some body \<and> yaml_safe_load body = Inr (h, cfg)
                \<and> apply_overrides h cfg overrides = Inr h'
                \<and> p = temp_config_path path_div results_dir v provider
                \<and> w' = w\<lparr>files := (files w)(p \<mapsto> yaml_safe_dump h' cfg),
                          writes := writes w @ [(p, yaml_safe_dump h' cfg)]\<rparr>))
       \<and> (\<forall>f. config v = ConfigPath f \<and> config_overrides v = None \<longrightarrow>
            p = f \<and> files w f \<noteq> None \<and> w' = w)"
  using assms
  by (auto simp: prepare_variant_config_def read_file_def write_file_def Let_def
           split: config_source.splits option.splits sum.splits if_splits prod.splits)

theorem prepare_variant_config_result_witness:
  "\<exists>body h cfg h'.
      files sample_world ''configs/base.yaml'' = Some body
      \<and> sample_yaml_load body = Inr (h, cfg)
      \<and> apply_overrides h cfg [(''agents.a.model'', PStr ''m'')] = Inr h'
      \<and> ''results/generic/tuned_openai_temp.yaml''
          = temp_config_path slash_join ''results/generic'' override_variant ''openai''"
  using prepare_variant_config_result [OF prepare_override_variant]
  by (simp add: override_variant_def) blast

text \<open>
  The claim as the specification words it fails for a configuration file without
  overrides: materialisation succeeds, the path returned is the referenced file and not a
  freshly written artifact, and the world afterwards is the world before, so that no write
  was made.
\<close>

theorem prepare_variant_config_file_counterexample:
  "prepare_variant_config sample_yaml_load sample_yaml_dump slash_join ''results/generic''
     sample_world file_variant ''openai''
   = Inr (Some ''configs/base.yaml'', sample_world)
   \<and> writes sample_world = []
   \<and> temp_config_path slash_join ''results/generic'' file_variant ''openai''
       \<noteq> ''configs/base.yaml''"
  by (simp add: prepare_variant_config_def sample_world_def file_variant_def
        temp_config_path_def slash_join_def)

section \<open>Properties of scenario execution\<close>

text \<open>
  Claim C5. For every variant and scenario, an execution that exceeds the timeout of 60
  that \<^verbatim>\<open>subprocess.run\<close> was given returns normally, with a record that has
  \<open>success\<close> false, the tag \<^verbatim>\<open>Timeout\<close> and an elapsed time of 60, the same
  bound, and that carries nothing of the abandoned call: no tokens, no iterations, no
  output. Conversely, every record that is returned with the tag \<^verbatim>\<open>Timeout\<close> comes
  from a timeout, so that its \<open>success\<close> is false and its elapsed time is 60.
\<close>

theorem run_scenario_timeout:
  "run_scenario re_group_int v sc TimeoutExpired
     = Inr \<lparr>scenario = scenario_name sc, variant = variant_name v, success = False,
            elapsed_time = 60, error = Some ''Timeout'', tokens = None, iterations = None,
            output_head = None\<rparr>
   \<and> (\<forall>outcome r.
         run_scenario re_group_int v sc outcome = Inr r \<and> error r = Some ''Timeout'' \<longrightarrow>
           outcome = TimeoutExpired \<and> \<not> success r \<and> elapsed_time r = 60)"
  by (auto simp: run_scenario_def Let_def split: call_outcome.splits)

theorem run_scenario_timeout_witness:
  "run_scenario sample_group_int override_variant sample_scenario TimeoutExpired
     = Inr \<lparr>scenario = ''echo-test'', variant = ''tuned'', success = False,
            elapsed_time = 60, error = Some ''Timeout'', tokens = None, iterations = None,
            output_head = None\<rparr>"
  using run_scenario_timeout [of sample_group_int override_variant sample_scenario]
  by (simp add: override_variant_def sample_scenario_def)

section \<open>Properties of the aggregation\<close>

lemma map_of_summary_loop:
  "map_of (summary_loop vs results s) v
     = (if v \<in> set vs then Some (summarize results v) else map_of s v)"
  by (induction vs arbitrary: s) (auto simp: update_conv')

lemma py_max_loop_best:
  assumes "\<forall>x\<in>set xs. key x = Inr (g x)"
  shows "\<exists>b. py_max_loop key xs best (g best) = Inr b \<and> b \<in> set (best # xs)
             \<and> (\<forall>x\<in>set (best # xs). g x \<le> g b)"
  using assms
proof (induction xs arbitrary: best)
  case Nil
  then show ?case by simp
next
  case (Cons x xs)
  then have kx: "key x = Inr (g x)" and rest: "\<forall>y\<in>set xs. key y = Inr (g y)"
    by simp_all
  show ?case
  proof (cases "g x > g best")
    case True
    from Cons.IH [OF rest, of x] obtain b where
      "py_max_loop key xs x (g x) = Inr b" "b \<in> set (x # xs)" "\<forall>y\<in>set (x # xs). g y \<le> g b"
      by blast
    with True kx show ?thesis by (intro exI [of _ b]) auto
  next
    case False
    from Cons.IH [OF rest, of best] obtain b where
      "py_max_loop key xs best (g best) = Inr b" "b \<in> set (best # xs)"
      "\<forall>y\<in>set (best # xs). g y \<le> g b"
      by blast
    with False kx show ?thesis by (intro exI [of _ b]) auto
  qed
qed

lemma py_min_loop_best:
  assumes "\<forall>x\<in>set xs. key x = Inr (g x)"
  shows "\<exists>b. py_min_loop key xs best (g best) = Inr b \<and> b \<in> set (best # xs)
             \<and> (\<forall>x\<in>set (best # xs). g b \<le> g x)"
  using assms
proof (induction xs arbitrary: best)
  case Nil
  then show ?case by simp
next
  case (Cons x xs)
  then have kx: "key x = Inr (g x)" and rest: "\<forall>y\<in>set xs. key y = Inr (g y)"
    by simp_all
  show ?case
  proof (cases "g x < g best")
    case True
    from Cons.IH [OF rest, of x] obtain b where
      "py_min_loop key xs x (g x) = Inr b" "b \<in> set (x # xs)" "\<forall>y\<in>set (x # xs). g b \<le> g y"
      by blast
    with True kx show ?thesis by (intro exI [of _ b]) auto
  next
    case False
    from Cons.IH [OF rest, of best] obtain b where
      "py_min_loop key xs best (g best) = Inr b" "b \<in> set (best # xs)"
      "\<forall>y\<in>set (best # xs). g b \<le> g y"
      by blast
    with False kx show ?thesis by (intro exI [of _ b]) auto
  qed
qed

lemma py_max_best:
  assumes "xs \<noteq> []" and "\<forall>x\<in>set xs. key x = Inr (g x)"
  shows "\<exists>b. py_max key xs = Inr b \<and> b \<in> set xs \<and> (\<forall>x\<in>set xs. g x \<le> g b)"
proof -
  from assms obtain x rest where xs: "xs = x # rest" by (cases xs) auto
  with assms have "key x = Inr (g x)" "\<forall>y\<in>set rest. key y = Inr (g y)" by simp_all
  with py_max_loop_best [of rest key g x] xs show ?thesis
    by (simp add: py_max_def)
qed

lemma py_min_best:
  assumes "xs \<noteq> []" and "\<forall>x\<in>set xs. key x = Inr (g x)"
  shows "\<exists>b. py_min key xs = Inr b \<and> b \<in> set xs \<and> (\<forall>x\<in>set xs. g b \<le> g x)"
proof -
  from assms obtain x rest where xs: "xs = x # rest" by (cases xs) auto
  with assms have "key x = Inr (g x)" "\<forall>y\<in>set rest. key y = Inr (g y)" by simp_all
  with py_min_loop_best [of rest key g x] xs show ?thesis
    by (simp add: py_min_def)
qed

lemma summary_field_loop:
  "v \<in> set vs \<Longrightarrow>
     summary_field field (summary_loop vs results []) v = Inr (field (summarize results v))"
  by (simp add: summary_field_def map_of_summary_loop)


lemma three_variant_summaries:
  "summarize three_variant_results ''tuned''
     = \<lparr>success_rate = 1 / 2, avg_tokens = 50, avg_time = 31, total_tests = 2\<rparr>"
  "summarize three_variant_results ''baseline''
     = \<lparr>success_rate = 1, avg_tokens = 300, avg_time = 5, total_tests = 1\<rparr>"
  "summarize three_variant_results ''fast''
     = \<lparr>success_rate = 0, avg_tokens = 400, avg_time = 1, total_tests = 1\<rparr>"
  by (simp_all add: summarize_def three_variant_results_def)

lemma three_variant_names:
  "variant ` set three_variant_results = {''tuned'', ''baseline'', ''fast''}"
  by (auto simp: three_variant_results_def)

text \<open>
  With no execution record at all there is no variant, and under each of the three
  objectives \<^verbatim>\<open>max\<close> or \<^verbatim>\<open>min\<close> of the empty list raises.
\<close>

lemma generate_summary_no_results:
  assumes "list_of_set [] = []"
    and "primary_metric test_def = Inr (PStr objective)"
    and "objective \<in> {''quality'', ''cost'', ''speed''}"
  shows "generate_summary list_of_set test_def [] = Inl ValueError"
  using assms by (auto simp: generate_summary_def py_max_def py_min_def)

text \<open>
  The objective of a test definition is the string at \<^verbatim>\<open>metrics.primary\<close>; a
  definition without \<^verbatim>\<open>metrics\<close>, or whose \<^verbatim>\<open>metrics\<close> has no \<^verbatim>\<open>primary\<close>,
  is read as \<open>quality\<close>.
\<close>

lemma primary_metric_declared:
  assumes "map_of test_def ''metrics'' = Some (PDict metrics)"
    and "map_of metrics ''primary'' = Some pm"
  shows "primary_metric (PDict test_def) = Inr pm"
  using assms by (simp add: primary_metric_def)

lemma primary_metric_default:
  assumes "map_of test_def ''metrics'' = None
           \<or> (\<exists>metrics. map_of test_def ''metrics'' = Some (PDict metrics)
                  \<and> map_of metrics ''primary'' = None)"
  shows "primary_metric (PDict test_def) = Inr (PStr ''quality'')"
  using assms by (auto simp: primary_metric_def)

lemma generate_summary_best:
  assumes "results \<noteq> []"
    and "set (list_of_set (map variant results)) = set (map variant results)"
    and "primary_metric test_def = Inr (PStr objective)"
    and "objective \<in> {''quality'', ''cost'', ''speed''}"
  shows "\<exists>summary best.
           generate_summary list_of_set test_def results = Inr (summary, Some best)
           \<and> best \<in> variant ` set results
           \<and> (\<forall>v\<in>variant ` set results. map_of summary v = Some (summarize results v))
           \<and> (objective = ''quality'' \<longrightarrow>
                (\<forall>v\<in>variant ` set results.
                   success_rate (summarize results v) \<le> success_rate (summarize results best)))
           \<and> (objective = ''cost'' \<longrightarrow>
                (\<forall>v\<in>variant ` set results.
                   avg_tokens (summarize results best) \<le> avg_tokens (summarize results v)))
           \<and> (objective = ''speed'' \<longrightarrow>
                (\<forall>v\<in>variant ` set results.
                   avg_time (summarize results best) \<le> avg_time (summarize results v)))"
proof -
  define variants where "variants = list_of_set (map variant results)"
  define summary where "summary = summary_loop variants results []"
  have vset: "set variants = variant ` set results"
    using assms(2) by (simp add: variants_def)
  with assms(1) have ne: "variants \<noteq> []"
    by auto
  have tab: "\<forall>v\<in>variant ` set results. map_of summary v = Some (summarize results v)"
    using vset by (simp add: summary_def map_of_summary_loop)
  have key: "\<forall>v\<in>set variants. summary_field field summary v = Inr (field (summarize results v))"
    for field
    by (simp add: summary_def summary_field_loop)
  consider "objective = ''quality''" | "objective = ''cost''" | "objective = ''speed''"
    using assms(4) by auto
  then show ?thesis
  proof cases
    case 1
    from py_max_best [OF ne key [of success_rate]] obtain b where
      "py_max (summary_field success_rate summary) variants = Inr b" "b \<in> set variants"
      "\<forall>x\<in>set variants. success_rate (summarize results x) \<le> success_rate (summarize results b)"
      by blast
    with 1 assms(3) vset tab show ?thesis
      by (intro exI [of _ summary] exI [of _ b])
         (simp add: generate_summary_def Let_def variants_def [symmetric] summary_def [symmetric])
  next
    case 2
    from py_min_best [OF ne key [of avg_tokens]] obtain b where
      "py_min (summary_field avg_tokens summary) variants = Inr b" "b \<in> set variants"
      "\<forall>x\<in>set variants. avg_tokens (summarize results b) \<le> avg_tokens (summarize results x)"
      by blast
    with 2 assms(3) vset tab show ?thesis
      by (intro exI [of _ summary] exI [of _ b])
         (simp add: generate_summary_def Let_def variants_def [symmetric] summary_def [symmetric])
  next
    case 3
    from py_min_best [OF ne key [of avg_time]] obtain b where
      "py_min (summary_field avg_time summary) variants = Inr b" "b \<in> set variants"
      "\<forall>x\<in>set variants. avg_time (summarize results b) \<le> avg_time (summarize results x)"
      by blast
    with 3 assms(3) vset tab show ?thesis
      by (intro exI [of _ summary] exI [of _ b])
         (simp add: generate_summary_def Let_def variants_def [symmetric] summary_def [symmetric])
  qed
qed

text \<open>
  Claim C8, as the code has it. For a run with at least one execution record, whose test
  definition names at \<^verbatim>\<open>metrics.primary\<close> one of the objectives \<open>quality\<close>,
  \<open>cost\<close> and \<open>speed\<close>, the aggregator returns a best variant; it is one of the
  variants of the run, and under \<open>quality\<close> no variant has a greater success rate, under
  \<open>cost\<close> none has a smaller average token count, under \<open>speed\<close> none has a smaller
  average elapsed time. The rates and averages compared are those of the summary. Under
  \<open>quality\<close> the token and time averages play no part.
\<close>

theorem generate_summary_selects_best:
  assumes "results \<noteq> []"
    and "set (list_of_set (map variant results)) = set (map variant results)"
    and "map_of test_def ''metrics'' = Some (PDict metrics)"
    and "map_of metrics ''primary'' = Some (PStr objective)"
    and "objective \<in> {''quality'', ''cost'', ''speed''}"
  shows "\<exists>summary best.
           generate_summary list_of_set (PDict test_def) results = Inr (summary, Some best)
           \<and> best \<in> variant ` set results
           \<and> (\<forall>v\<in>variant ` set results. map_of summary v = Some (summarize results v))
           \<and> (objective = ''quality'' \<longrightarrow>
                (\<forall>v\<in>variant ` set results.
                   success_rate (summarize results v) \<le> success_rate (summarize results best)))
           \<and> (objective = ''cost'' \<longrightarrow>
                (\<forall>v\<in>variant ` set results.
                   avg_tokens (summarize results best) \<le> avg_tokens (summarize results v)))
           \<and> (objective = ''speed'' \<longrightarrow>
                (\<forall>v\<in>variant ` set results.
                   avg_time (summarize results best) \<le> avg_time (summarize results v)))"
proof -
  have pm: "primary_metric (PDict test_def) = Inr (PStr objective)"
    using assms(3,4) by (rule primary_metric_declared)
  show ?thesis
    by (rule generate_summary_best
               [where list_of_set = list_of_set and results = results,
                OF assms(1) assms(2) pm assms(5)])
qed

theorem generate_summary_selects_best_witness:
  "(\<exists>summary. generate_summary remdups_order
                  (PDict [(''test_name'', PStr ''t''),
                          (''metrics'', PDict [(''primary'', PStr ''quality'')])])
                  three_variant_results = Inr (summary, Some ''baseline''))
   \<and> (\<exists>summary. generate_summary remdups_order
                  (PDict [(''test_name'', PStr ''t''),
                          (''metrics'', PDict [(''primary'', PStr ''cost'')])])
                  three_variant_results = Inr (summary, Some ''tuned''))
   \<and> (\<exists>summary. generate_summary remdups_order
                  (PDict [(''test_name'', PStr ''t''),
                          (''metrics'', PDict [(''primary'', PStr ''speed'')])])
                  three_variant_results = Inr (summary, Some ''fast''))"
proof -
  have h1: "three_variant_results \<noteq> []"
    by (simp add: three_variant_results_def)
  have h2: "set (remdups_order (map variant three_variant_results))
              = set (map variant three_variant_results)"
    by (simp add: remdups_order_def)
  have h3: "map_of [(''test_name'', PStr ''t''), (''metrics'', PDict [(''primary'', PStr obj)])]
              ''metrics'' = Some (PDict [(''primary'', PStr obj)])" for obj
    by simp
  have h4: "map_of [(''primary'', PStr obj)] ''primary'' = Some (PStr obj)" for obj
    by simp
  have quality: "\<exists>summary. generate_summary remdups_order
                  (PDict [(''test_name'', PStr ''t''),
                          (''metrics'', PDict [(''primary'', PStr ''quality'')])])
                  three_variant_results = Inr (summary, Some ''baseline'')"
  proof -
    from generate_summary_selects_best
           [where list_of_set = remdups_order and results = three_variant_results,
            OF h1 h2 h3 h4, of "''quality''"]
    obtain summary best where
      run: "generate_summary remdups_order
              (PDict [(''test_name'', PStr ''t''),
                      (''metrics'', PDict [(''primary'', PStr ''quality'')])])
              three_variant_results = Inr (summary, Some best)"
      and mem: "best \<in> variant ` set three_variant_results"
      and top: "\<forall>v\<in>variant ` set three_variant_results.
                  success_rate (summarize three_variant_results v)
                    \<le> success_rate (summarize three_variant_results best)"
      by auto
    from top have "success_rate (summarize three_variant_results ''baseline'')
                     \<le> success_rate (summarize three_variant_results best)"
      by (simp add: three_variant_names)
    with mem have "best = ''baseline''"
      by (auto simp: three_variant_names three_variant_summaries)
    with run show ?thesis by blast
  qed
  have cost: "\<exists>summary. generate_summary remdups_order
                  (PDict [(''test_name'', PStr ''t''),
                          (''metrics'', PDict [(''primary'', PStr ''cost'')])])
                  three_variant_results = Inr (summary, Some ''tuned'')"
  proof -
    from generate_summary_selects_best
           [where list_of_set = remdups_order and results = three_variant_results,
            OF h1 h2 h3 h4, of "''cost''"]
    obtain summary best where
      run: "generate_summary remdups_order
              (PDict [(''test_name'', PStr ''t''),
                      (''metrics'', PDict [(''primary'', PStr ''cost'')])])
              three_variant_results = Inr (summary, Some best)"
      and mem: "best \<in> variant ` set three_variant_results"
      and top: "\<forall>v\<in>variant ` set three_variant_results.
                  avg_tokens (summarize three_variant_results best)
                    \<le> avg_tokens (summarize three_variant_results v)"
      by auto
    from top have "avg_tokens (summarize three_variant_results best)
                     \<le> avg_tokens (summarize three_variant_results ''tuned'')"
      by (simp add: three_variant_names)
    with mem have "best = ''tuned''"
      by (auto simp: three_variant_names three_variant_summaries)
    with run show ?thesis by blast
  qed
  have speed: "\<exists>summary. generate_summary remdups_order
                  (PDict [(''test_name'', PStr ''t''),
                          (''metrics'', PDict [(''primary'', PStr ''speed'')])])
                  three_variant_results = Inr (summary, Some ''fast'')"
  proof -
    from generate_summary_selects_best
           [where list_of_set = remdups_order and results = three_variant_results,
            OF h1 h2 h3 h4, of "''speed''"]
    obtain summary best where
      run: "generate_summary remdups_order
              (PDict [(''test_name'', PStr ''t''),
                      (''metrics'', PDict [(''primary'', PStr ''speed'')])])
              three_variant_results = Inr (summary, Some best)"
      and mem: "best \<in> variant ` set three_variant_results"
      and top: "\<forall>v\<in>variant ` set three_variant_results.
                  avg_time (summarize three_variant_results best)
                    \<le> avg_time (summarize three_variant_results v)"
      by auto
    from top have "avg_time (summarize three_variant_results best)
                     \<le> avg_time (summarize three_variant_results ''fast'')"
      by (simp add: three_variant_names)
    with mem have "best = ''fast''"
      by (auto simp: three_variant_names three_variant_summaries)
    with run show ?thesis by blast
  qed
  from quality cost speed show ?thesis by blast
qed

text \<open>
  The claim as the specification words it, for every completed run, fails on a run that
  ends without an execution record (every variant skipped): the aggregator raises
  \<^verbatim>\<open>ValueError\<close> and selects nothing.
\<close>

theorem generate_summary_no_records_counterexample:
  "generate_summary remdups_order quality_test_def [] = Inl ValueError"
  by (simp add: generate_summary_def remdups_order_def quality_test_def_def
        primary_metric_def py_max_def)

text \<open>
  Claim C10. Every entry of the summary is computed from all the records of its variant,
  timeouts and failures included: the number of tests is the number of those records, the
  success rate is the number of successful ones divided by it, the average token count is
  the sum of the token counts, a record without one counting 0, divided by it, and the
  average time is the sum of the elapsed times divided by it.
\<close>

theorem summary_table_over_all_records:
  assumes "set (list_of_set (map variant results)) = set (map variant results)"
    and "map_of (summary_table list_of_set results) v = Some s"
  shows "filter (\<lambda>r. variant r = v) results \<noteq> []
       \<and> total_tests s = length (filter (\<lambda>r. variant r = v) results)
       \<and> success_rate s
           = of_nat (length (filter success (filter (\<lambda>r. variant r = v) results)))
             / of_nat (length (filter (\<lambda>r. variant r = v) results))
       \<and> avg_tokens s
           = of_int (\<Sum>r\<leftarrow>filter (\<lambda>r. variant r = v) results.
                       case tokens r of Some t \<Rightarrow> t | None \<Rightarrow> 0)
             / of_nat (length (filter (\<lambda>r. variant r = v) results))
       \<and> avg_time s
           = (\<Sum>r\<leftarrow>filter (\<lambda>r. variant r = v) results. elapsed_time r)
             / of_nat (length (filter (\<lambda>r. variant r = v) results))"
proof -
  have mem: "v \<in> variant ` set results" and s: "s = summarize results v"
    using assms by (auto simp: summary_table_def map_of_summary_loop split: if_splits)
  from mem have ne: "filter (\<lambda>r. variant r = v) results \<noteq> []"
    by (auto simp: filter_empty_conv)
  show ?thesis
    using ne by (simp add: s summarize_def Let_def)
qed


theorem summary_table_over_all_records_witness:
  "map_of (summary_table remdups_order sample_results) ''tuned''
     = Some \<lparr>success_rate = 1 / 2, avg_tokens = 50, avg_time = 31, total_tests = 2\<rparr>"
proof -
  have h1: "set (remdups_order (map variant sample_results)) = set (map variant sample_results)"
    by (simp add: remdups_order_def)
  have h2: "map_of (summary_table remdups_order sample_results) ''tuned''
              = Some (summarize sample_results ''tuned'')"
    by (simp add: summary_table_def remdups_order_def sample_results_def update_conv')
  from summary_table_over_all_records
         [where list_of_set = remdups_order and results = sample_results, OF h1 h2] h2
  show ?thesis
    by (simp add: summarize_def sample_results_def)
qed


section \<open>Properties of the comparison report\<close>

lemma map_of_config_summaries_loop:
  "map_of (config_summaries_loop all_results acc) name = Some s \<Longrightarrow>
     map_of acc name = Some s \<or> (\<exists>results. s = config_summary results)"
  by (induction all_results acc rule: config_summaries_loop.induct)
     (auto simp: update_conv' split: if_splits)

lemma config_summary_no_avg_score: "map_of (config_summary results) ''avg_score'' = None"
  by (simp add: config_summary_def Let_def)

text \<open>
  No summary has a key \<^verbatim>\<open>avg_score\<close> (the average is stored under
  \<^verbatim>\<open>avg_quality_score\<close>), so the baseline score read is always the default 0 and the
  improvement table is left out for every run, with or without a baseline.
\<close>

lemma improvement_analysis_omitted:
  "improvement_analysis (config_summaries all_results) = Inr None"
proof (cases "map_of (config_summaries all_results) ''Baseline''")
  case None
  then show ?thesis
    by (simp add: improvement_analysis_def dict_get_def)
next
  case (Some s)
  then obtain results where "s = config_summary results"
    using map_of_config_summaries_loop [of all_results "[]" "''Baseline''" s]
    by (auto simp: config_summaries_def)
  with Some show ?thesis
    by (simp add: improvement_analysis_def dict_get_def config_summary_no_avg_score)
qed

text \<open>
  Claim C4, evaluated. A run with the configurations \<open>Baseline\<close> (one test, score 1)
  and \<open>Supervisor\<close> (one test, score 1/2): the claim wants the improvement -1/2 for
  \<open>Supervisor\<close>; the report computes no improvement at all, although the summary of the
  baseline is there. With \<open>Reflection Only\<close> in place of \<open>Supervisor\<close> the
  recommendation that follows looks the same missing key up without a default and raises
  \<^verbatim>\<open>KeyError\<close>.
\<close>

theorem improvement_analysis_baseline_run:
  "improvement_analysis (config_summaries baseline_run) = Inr None
   \<and> dict_get (config_summaries baseline_run) ''Baseline'' []
       = [(''tests_total'', 1), (''tests_passed'', 1), (''tests_partial'', 0),
          (''tests_failed'', 0), (''avg_quality_score'', 100), (''pass_rate'', 100)]
   \<and> reflection_improvement (config_summaries reflection_run) = Inl (KeyError ''avg_score'')"
  by (simp add: improvement_analysis_def reflection_improvement_def config_summaries_def
        baseline_run_def reflection_run_def config_summary_def passing_result_def
        partial_result_def dict_get_def dict_item_def Let_def)


section \<open>Properties of the command line\<close>

text \<open>
  Without an argument \<open>main\<close> prints the usage and exits with status 1. With the path of
  a file that does not exist it prints that the definition was not found, and then returns:
  the exit status is 0.
\<close>

lemma main_missing_definition:
  assumes "length argv \<ge> 2" and "files w (argv ! 1) = None"
  shows "main json_load run_loaded argv w = (0, print_line w (DefinitionNotFound (argv ! 1)))"
  using assms by (simp add: main_def run_benchmark_def load_test_definition_def)

lemma main_no_argument:
  assumes "length argv < 2"
  shows "main json_load run_loaded argv w = (1, print_line w Usage)"
  using assms by (simp add: main_def)


text \<open>
  Claim C9, evaluated. Called with \<^verbatim>\<open>tests/missing.json\<close>, which does not exist,
  \<open>main\<close> prints the error and exits with status 0, where the claim wants a non-zero
  status; called with no argument it prints the usage and exits with status 1.
\<close>

theorem main_missing_definition_exits_zero:
  "main sample_json_load no_run [''generic_benchmark.py'', ''tests/missing.json''] sample_world
     = (0, sample_world\<lparr>stdout := [DefinitionNotFound ''tests/missing.json'']\<rparr>)
   \<and> main sample_json_load no_run [''generic_benchmark.py''] sample_world
       = (1, sample_world\<lparr>stdout := [Usage]\<rparr>)"
  by (simp add: main_def run_benchmark_def load_test_definition_def print_line_def
        sample_world_def)

end
